theory Spec2Isabelle
  imports Main
begin

section \<open>Go library functions on strings\<close>

text \<open>
  Go strings are byte sequences; they are modelled as \<open>string\<close> (a list of 8-bit
  characters).  The library functions below are the byte-level (ASCII) behaviour of
  \<^verbatim>\<open>strings.ToLower\<close>, \<^verbatim>\<open>strings.TrimSpace\<close>, \<^verbatim>\<open>strings.TrimSuffix\<close>,
  \<^verbatim>\<open>strings.TrimRight\<close>, \<^verbatim>\<open>strings.Contains\<close>, \<^verbatim>\<open>strconv.Atoi\<close>,
  \<^verbatim>\<open>filepath.Ext\<close>, \<^verbatim>\<open>filepath.Base\<close> and \<^verbatim>\<open>filepath.Join\<close> (Unix separator).
  On text outside ASCII Go works on Unicode code points; that part is not modelled.
\<close>

definition bslash :: char where
  "bslash = CHR 0x5C"

definition upper_letters :: string where
  "upper_letters = ''ABCDEFGHIJKLMNOPQRSTUVWXYZ''"

definition lower_letters :: string where
  "lower_letters = ''abcdefghijklmnopqrstuvwxyz''"

definition digit_chars :: string where
  "digit_chars = ''0123456789''"

definition is_digit :: "char \<Rightarrow> bool" where
  "is_digit c = (c \<in> set digit_chars)"

definition is_word_char :: "char \<Rightarrow> bool" where
  "is_word_char c = (c \<in> set (digit_chars @ upper_letters @ lower_letters @ ''_''))"

definition is_space :: "char \<Rightarrow> bool" where
  \<comment> \<open>unicode.IsSpace on ASCII: tab, newline, vertical tab, form feed, carriage return, space\<close>
  "is_space c = (c \<in> set [CHR 0x09, CHR 0x0A, CHR 0x0B, CHR 0x0C, CHR 0x0D, CHR 0x20])"

definition lower_char :: "char \<Rightarrow> char" where
  "lower_char c = (case map_of (zip upper_letters lower_letters) c of Some d \<Rightarrow> d | None \<Rightarrow> c)"

definition ToLower :: "string \<Rightarrow> string" where
  "ToLower s = map lower_char s"

definition TrimSpace :: "string \<Rightarrow> string" where
  "TrimSpace s = rev (dropWhile is_space (rev (dropWhile is_space s)))"

definition TrimRight :: "string \<Rightarrow> string \<Rightarrow> string" where
  "TrimRight s cutset = rev (dropWhile (\<lambda>c. c \<in> set cutset) (rev s))"

definition HasSuffix :: "string \<Rightarrow> string \<Rightarrow> bool" where
  "HasSuffix s suffix =
     (length suffix \<le> length s \<and> drop (length s - length suffix) s = suffix)"

definition TrimSuffix :: "string \<Rightarrow> string \<Rightarrow> string" where
  "TrimSuffix s suffix =
     (if HasSuffix s suffix then take (length s - length suffix) s else s)"

fun Contains :: "string \<Rightarrow> string \<Rightarrow> bool" where
  "Contains [] substr = (substr = [])"
| "Contains (c # s) substr = (take (length substr) (c # s) = substr \<or> Contains s substr)"

fun digits_value :: "int \<Rightarrow> string \<Rightarrow> int" where
  "digits_value n [] = n"
| "digits_value n (c # cs) =
     digits_value (n * 10 + (case map_of (zip digit_chars [0, 1, 2, 3, 4, 5, 6, 7, 8, 9]) c of
                               Some d \<Rightarrow> d | None \<Rightarrow> 0)) cs"

definition Atoi :: "string \<Rightarrow> int option" where
  \<comment> \<open>optional sign, at least one decimal digit, value within the 64-bit int range;
      None is a non-nil error\<close>
  "Atoi s =
     (let neg = (s \<noteq> [] \<and> hd s = CHR ''-'');
          ds = (if s \<noteq> [] \<and> (hd s = CHR ''-'' \<or> hd s = CHR ''+'') then tl s else s)
      in if ds = [] \<or> \<not> list_all is_digit ds then None
         else let v = (if neg then - digits_value 0 ds else digits_value 0 ds)
              in if - (2 ^ 63) \<le> v \<and> v < 2 ^ 63 then Some v else None)"

fun ext_scan :: "string \<Rightarrow> string \<Rightarrow> string" where
  \<comment> \<open>the backwards scan of filepath.Ext: first argument is the reversed rest of the path,
      second the suffix already passed\<close>
  "ext_scan [] acc = []"
| "ext_scan (c # cs) acc =
     (if c = CHR ''/'' then []
      else if c = CHR ''.'' then c # acc
      else ext_scan cs (c # acc))"

definition Ext :: "string \<Rightarrow> string" where
  "Ext path = ext_scan (rev path) []"

definition Base :: "string \<Rightarrow> string" where
  "Base path =
     (if path = [] then ''.''
      else let p = TrimRight path ''/'';
               e = rev (takeWhile (\<lambda>c. c \<noteq> CHR ''/'') (rev p))
           in if e = [] then ''/'' else e)"

fun split_slash :: "string \<Rightarrow> string \<Rightarrow> string list" where
  \<comment> \<open>the elements of a path between separators; second argument collects the current
      element\<close>
  "split_slash [] cur = [cur]"
| "split_slash (c # cs) cur =
     (if c = CHR ''/'' then cur # split_slash cs [] else split_slash cs (cur @ [c]))"

fun clean_elems :: "bool \<Rightarrow> string list \<Rightarrow> string list \<Rightarrow> string list" where
  \<comment> \<open>filepath.Clean on the list of elements; the third argument is the output so far,
      last element first\<close>
  "clean_elems rooted [] out = rev out"
| "clean_elems rooted (e # es) out =
     (if e = [] \<or> e = ''.'' then clean_elems rooted es out
      else if e = ''..'' then
        (case out of
           [] \<Rightarrow> clean_elems rooted es (if rooted then [] else [e])
         | t # ts \<Rightarrow> if t = ''..'' then clean_elems rooted es (e # out)
                     else clean_elems rooted es ts)
      else clean_elems rooted es (e # out))"

fun join_slash :: "string list \<Rightarrow> string" where
  "join_slash [] = []"
| "join_slash [e] = e"
| "join_slash (e # es) = e @ ''/'' @ join_slash es"

definition Clean :: "string \<Rightarrow> string" where
  "Clean path =
     (if path = [] then ''.''
      else let rooted = (hd path = CHR ''/'');
               body = join_slash (clean_elems rooted (split_slash path []) []);
               r = (if rooted then CHR ''/'' # body else body)
           in if r = [] then ''.'' else r)"

definition Join :: "string list \<Rightarrow> string" where
  \<comment> \<open>filepath.Join: empty elements are ignored, the result is cleaned\<close>
  "Join elems =
     (let es = filter (\<lambda>e. e \<noteq> []) elems
      in if es = [] then [] else Clean (join_slash es))"

section \<open>A model of Go's \<^verbatim>\<open>regexp\<close> package\<close>

text \<open>
  The program compiles every configured pattern with \<^verbatim>\<open>regexp.Compile\<close> and uses
  \<^verbatim>\<open>FindStringSubmatch\<close> and \<^verbatim>\<open>ReplaceAllString\<close>.  The program's own functions are
  modelled over any regular-expression library (a record of these three operations).
  For evaluation on concrete filenames, \<open>go_regexp\<close> below is a backtracking matcher
  with the leftmost-first semantics Go documents (the match a backtracking engine finds
  first, at the earliest start), for the fragment of the syntax that the program's
  patterns use: literals, \<^verbatim>\<open>.\<close>, escapes, bracket classes, groups, non-capturing
  groups, alternation, \<^verbatim>\<open>* + ?\<close> and their lazy forms, \<^verbatim>\<open>^\<close> and \<^verbatim>\<open>$\<close>.  A
  pattern outside that fragment (a brace, counted repetition, flags, named groups,
  word boundaries, negated or POSIX classes inside brackets, characters outside ASCII)
  is answered like a pattern that does not compile.  Text is matched byte by byte, which
  is Go's matching on ASCII text.
\<close>

record 'r regexp_lib =
  Compile :: "string \<Rightarrow> 'r option"
  FindStringSubmatch :: "'r \<Rightarrow> string \<Rightarrow> string list"
  ReplaceAllString :: "'r \<Rightarrow> string \<Rightarrow> string \<Rightarrow> string"

datatype re =
    Eps
  | Chars bool "char list" "(char \<times> char) list"
  | Bol
  | Eol
  | Cat re re
  | Alt re re
  | Star bool re
  | Cap nat re

record mstate =
  pos :: nat
  rest :: string
  caps :: "(nat \<times> string) list"

definition in_class :: "bool \<Rightarrow> char list \<Rightarrow> (char \<times> char) list \<Rightarrow> char \<Rightarrow> bool" where
  "in_class neg cs rs c =
     ((c \<in> set cs \<or>
       list_ex (\<lambda>(lo, hi). (of_char lo :: nat) \<le> of_char c \<and> (of_char c :: nat) \<le> of_char hi) rs)
      \<noteq> neg)"

fun rep :: "bool \<Rightarrow> (mstate \<Rightarrow> (mstate \<Rightarrow> 'a option) \<Rightarrow> 'a option) \<Rightarrow> nat \<Rightarrow>
            mstate \<Rightarrow> (mstate \<Rightarrow> 'a option) \<Rightarrow> 'a option" where
  \<comment> \<open>repetition of a matcher; an iteration that consumes nothing is not repeated, so the
      number of remaining characters bounds the number of iterations\<close>
  "rep g f 0 st k = k st"
| "rep g f (Suc n) st k =
     (if g then
        (case f st (\<lambda>st'. if pos st < pos st' then rep g f n st' k else None) of
           Some x \<Rightarrow> Some x
         | None \<Rightarrow> k st)
      else
        (case k st of
           Some x \<Rightarrow> Some x
         | None \<Rightarrow> f st (\<lambda>st'. if pos st < pos st' then rep g f n st' k else None)))"

primrec run :: "re \<Rightarrow> mstate \<Rightarrow> (mstate \<Rightarrow> 'a option) \<Rightarrow> 'a option" where
  \<comment> \<open>backtracking: the continuation \<open>k\<close> is the rest of the pattern; the first
      alternative that lets the rest succeed wins\<close>
  "run Eps st k = k st"
| "run (Chars neg cs rs) st k =
     (case rest st of
        [] \<Rightarrow> None
      | c # s \<Rightarrow> if in_class neg cs rs c then k (st\<lparr>pos := Suc (pos st), rest := s\<rparr>) else None)"
| "run Bol st k = (if pos st = 0 then k st else None)"
| "run Eol st k = (if rest st = [] then k st else None)"
| "run (Cat a b) st k = run a st (\<lambda>st'. run b st' k)"
| "run (Alt a b) st k = (case run a st k of Some x \<Rightarrow> Some x | None \<Rightarrow> run b st k)"
| "run (Star g r) st k = rep g (run r) (length (rest st)) st k"
| "run (Cap i r) st k =
     run r st (\<lambda>st'. k (st'\<lparr>caps := (i, take (pos st' - pos st) (rest st)) # caps st'\<rparr>))"

record regexp =
  prog :: re
  numSubexp :: nat

definition match_here :: "re \<Rightarrow> nat \<Rightarrow> string \<Rightarrow> mstate option" where
  "match_here r p s = run r \<lparr>pos = p, rest = s, caps = []\<rparr> Some"

fun search :: "re \<Rightarrow> nat \<Rightarrow> string \<Rightarrow> (nat \<times> mstate) option" where
  \<comment> \<open>leftmost: the first start position, from \<open>p\<close> on, at which the pattern matches\<close>
  "search r p s =
     (case match_here r p s of
        Some st \<Rightarrow> Some (p, st)
      | None \<Rightarrow> (case s of [] \<Rightarrow> None | c # s' \<Rightarrow> search r (Suc p) s'))"

definition group_text :: "mstate \<Rightarrow> nat \<Rightarrow> string" where
  "group_text st i = (case map_of (caps st) i of Some x \<Rightarrow> x | None \<Rightarrow> [])"

fun group_list :: "mstate \<Rightarrow> nat \<Rightarrow> nat \<Rightarrow> string list" where
  \<comment> \<open>the texts of groups \<open>i, i+1, ...\<close>, \<open>n\<close> of them\<close>
  "group_list st i 0 = []"
| "group_list st i (Suc n) = group_text st i # group_list st (Suc i) n"

definition go_FindStringSubmatch :: "regexp \<Rightarrow> string \<Rightarrow> string list" where
  \<comment> \<open>the whole match, then the text of every group (empty for a group that did not
      take part); the empty list stands for nil (no match)\<close>
  "go_FindStringSubmatch rx s =
     (case search (prog rx) 0 s of
        None \<Rightarrow> []
      | Some (p, st) \<Rightarrow> take (pos st - p) (drop p s) # group_list st 1 (numSubexp rx))"


subsection \<open>Replacement\<close>

definition extract_name :: "string \<Rightarrow> (string \<times> nat) option" where
  \<comment> \<open>the name after a \<^verbatim>\<open>$\<close> of a replacement template (plain or in braces) and the
      number of characters it takes; None when there is no well-formed name\<close>
  "extract_name t =
     (let brace = (t \<noteq> [] \<and> hd t = CHR ''{'');
          body = (if brace then tl t else t);
          name = takeWhile is_word_char body
      in if name = [] then None
         else if brace then
           (if length name < length body \<and> body ! length name = CHR ''}''
            then Some (name, length name + 2) else None)
         else Some (name, length name))"

definition name_text :: "(nat \<Rightarrow> string) \<Rightarrow> string \<Rightarrow> string" where
  \<comment> \<open>a decimal name without a leading zero selects that group; any other name selects
      nothing (the fragment has no named groups)\<close>
  "name_text g name =
     (if list_all is_digit name \<and> \<not> (hd name = CHR ''0'' \<and> 1 < length name)
      then g (nat (digits_value 0 name)) else [])"

fun expand :: "string \<Rightarrow> (nat \<Rightarrow> string) \<Rightarrow> string" where
  "expand [] g = []"
| "expand (c # t) g =
     (if c \<noteq> CHR ''$'' then c # expand t g
      else (case t of
              [] \<Rightarrow> [c]
            | d # t' \<Rightarrow>
                if d = CHR ''$'' then d # expand t' g
                else (case extract_name t of
                        None \<Rightarrow> c # expand t g
                      | Some (name, n) \<Rightarrow> name_text g name @ expand (drop n t) g)))"

definition match_groups :: "regexp \<Rightarrow> string \<Rightarrow> mstate \<Rightarrow> nat \<Rightarrow> string" where
  \<comment> \<open>group 0 is the whole match, which started where \<open>s\<close> starts\<close>
  "match_groups rx s st i =
     (if i = 0 then take (length s - length (rest st)) s
      else if i \<le> numSubexp rx then group_text st i else [])"

fun replace_loop :: "regexp \<Rightarrow> string \<Rightarrow> nat \<Rightarrow> string \<Rightarrow> string \<Rightarrow> string" where
  \<comment> \<open>\<open>p\<close> is the search position, \<open>s\<close> the text from there, \<open>pend\<close> the text
      between the end of the last match and \<open>p\<close>.  As in Go, an empty match right
      after a match is not replaced, and the search always advances\<close>
  "replace_loop rx repl p pend s =
     (case match_here (prog rx) p s of
        None \<Rightarrow> (case s of [] \<Rightarrow> pend | c # s' \<Rightarrow> replace_loop rx repl (Suc p) (pend @ [c]) s')
      | Some st \<Rightarrow>
          pend @
          (if p < pos st \<or> pend \<noteq> [] \<or> p = 0 then expand repl (match_groups rx s st) else []) @
          (case s of
             [] \<Rightarrow> []
           | c # s' \<Rightarrow>
               if pos st = p then replace_loop rx repl (Suc p) [c] s'
               else replace_loop rx repl (pos st) [] (drop (pos st - Suc p) s')))"

definition go_ReplaceAllString :: "regexp \<Rightarrow> string \<Rightarrow> string \<Rightarrow> string" where
  "go_ReplaceAllString rx src repl = replace_loop rx repl 0 [] src"

subsection \<open>Parsing a pattern\<close>

datatype tok =
    TAtom re
  | TStar bool
  | TPlus bool
  | TQuest bool
  | TOpen bool
  | TClose
  | TBar

definition space_class :: "char list" where
  \<comment> \<open>Perl class s: tab, newline, form feed, carriage return, space\<close>
  "space_class = [CHR 0x09, CHR 0x0A, CHR 0x0C, CHR 0x0D, CHR 0x20]"

definition word_class :: "char list" where
  "word_class = digit_chars @ upper_letters @ lower_letters @ ''_''"

definition control_escape :: "char \<Rightarrow> char option" where
  "control_escape c =
     map_of [(CHR ''a'', CHR 0x07), (CHR ''f'', CHR 0x0C), (CHR ''t'', CHR 0x09),
             (CHR ''n'', CHR 0x0A), (CHR ''r'', CHR 0x0D), (CHR ''v'', CHR 0x0B)] c"

definition is_ascii :: "char \<Rightarrow> bool" where
  "is_ascii c = ((of_char c :: nat) < 128)"

definition escape_atom :: "char \<Rightarrow> re option" where
  \<comment> \<open>the atom for a backslash followed by \<open>c\<close>, outside a bracket class\<close>
  "escape_atom c =
     (if c = CHR ''d'' then Some (Chars False digit_chars [])
      else if c = CHR ''D'' then Some (Chars True digit_chars [])
      else if c = CHR ''s'' then Some (Chars False space_class [])
      else if c = CHR ''S'' then Some (Chars True space_class [])
      else if c = CHR ''w'' then Some (Chars False word_class [])
      else if c = CHR ''W'' then Some (Chars True word_class [])
      else if c = CHR ''A'' then Some Bol
      else if c = CHR ''z'' then Some Eol
      else if is_word_char c then map_option (\<lambda>d. Chars False [d] []) (control_escape c)
      else if is_ascii c then Some (Chars False [c] [])
      else None)"

definition escape_members :: "char \<Rightarrow> char list option" where
  \<comment> \<open>the members added by a backslash followed by \<open>c\<close>, inside a bracket class\<close>
  "escape_members c =
     (if c = CHR ''d'' then Some digit_chars
      else if c = CHR ''s'' then Some space_class
      else if c = CHR ''w'' then Some word_class
      else if is_word_char c then map_option (\<lambda>d. [d]) (control_escape c)
      else if is_ascii c then Some [c]
      else None)"

definition quantifier :: "char \<Rightarrow> bool \<Rightarrow> tok" where
  "quantifier c g = (if c = CHR ''*'' then TStar g else if c = CHR ''+'' then TPlus g else TQuest g)"

fun lex :: "string \<Rightarrow> tok list option"
  and lex_class :: "bool \<Rightarrow> char list \<Rightarrow> (char \<times> char) list \<Rightarrow> bool \<Rightarrow> string \<Rightarrow> tok list option"
where
  "lex [] = Some []"
| "lex (c # cs) =
     (if c = bslash then
        (case cs of
           [] \<Rightarrow> None
         | d # ds \<Rightarrow>
             (case escape_atom d of
                None \<Rightarrow> None
              | Some a \<Rightarrow> map_option ((#) (TAtom a)) (lex ds)))
      else if c = CHR ''['' then
        (case cs of
           [] \<Rightarrow> None
         | d # ds \<Rightarrow> if d = CHR ''^'' then lex_class True [] [] True ds
                     else lex_class False [] [] True cs)
      else if c = CHR ''('' then
        (case cs of
           [] \<Rightarrow> map_option ((#) (TOpen True)) (lex cs)
         | d # ds \<Rightarrow>
             if d \<noteq> CHR ''?'' then map_option ((#) (TOpen True)) (lex cs)
             else (case ds of
                     [] \<Rightarrow> None
                   | e # es \<Rightarrow> if e = CHR '':'' then map_option ((#) (TOpen False)) (lex es)
                               else None))
      else if c = CHR '')'' then map_option ((#) TClose) (lex cs)
      else if c = CHR ''|'' then map_option ((#) TBar) (lex cs)
      else if c = CHR ''*'' \<or> c = CHR ''+'' \<or> c = CHR ''?'' then
        (case cs of
           [] \<Rightarrow> map_option ((#) (quantifier c True)) (lex cs)
         | d # ds \<Rightarrow> if d = CHR ''?'' then map_option ((#) (quantifier c False)) (lex ds)
                     else map_option ((#) (quantifier c True)) (lex cs))
      else if c = CHR ''.'' then map_option ((#) (TAtom (Chars True [CHR 0x0A] []))) (lex cs)
      else if c = CHR ''^'' then map_option ((#) (TAtom Bol)) (lex cs)
      else if c = CHR ''$'' then map_option ((#) (TAtom Eol)) (lex cs)
      else if c = CHR ''{'' \<or> \<not> is_ascii c then None
      else map_option ((#) (TAtom (Chars False [c] []))) (lex cs))"
| "lex_class neg ms rs first [] = None"
| "lex_class neg ms rs first (c # cs) =
     (if c = CHR '']'' \<and> \<not> first then map_option ((#) (TAtom (Chars neg ms rs))) (lex cs)
      else if c = bslash then
        (case cs of
           [] \<Rightarrow> None
         | d # ds \<Rightarrow>
             (case escape_members d of
                None \<Rightarrow> None
              | Some m \<Rightarrow> lex_class neg (ms @ m) rs False ds))
      else if c = CHR ''['' \<and> cs \<noteq> [] \<and> hd cs = CHR '':'' then None
      else if \<not> is_ascii c then None
      else
        (case cs of
           d # e # es \<Rightarrow>
             if d = CHR ''-'' \<and> e \<noteq> CHR '']'' then
               (if e = bslash \<or> \<not> is_ascii e \<or> (of_char e :: nat) < of_char c then None
                else lex_class neg ms (rs @ [(c, e)]) False es)
             else lex_class neg (ms @ [c]) rs False cs
         | _ \<Rightarrow> lex_class neg (ms @ [c]) rs False cs))"

definition mk_cat :: "re list \<Rightarrow> re" where
  \<comment> \<open>the concatenation of the items, given last item first\<close>
  "mk_cat items = foldl (\<lambda>acc x. Cat x acc) Eps items"

fun mk_alt :: "re list \<Rightarrow> re" where
  "mk_alt [] = Eps"
| "mk_alt [a] = a"
| "mk_alt (a # as) = Alt a (mk_alt as)"

fun parse_toks :: "tok list \<Rightarrow> (nat option \<times> re list \<times> re list) list \<Rightarrow> re list \<Rightarrow> re list \<Rightarrow>
                   nat \<Rightarrow> bool \<Rightarrow> (re \<times> nat) option" where
  \<comment> \<open>\<open>stack\<close>: the enclosing groups (capture number, alternatives and items seen before
      the parenthesis); \<open>alts\<close>: the finished alternatives of the current group;
      \<open>items\<close>: the current concatenation, last item first; \<open>n\<close>: capture groups so
      far; \<open>lr\<close>: the previous token was a repetition operator\<close>
  "parse_toks [] stack alts items n lr =
     (if stack = [] then Some (mk_alt (alts @ [mk_cat items]), n) else None)"
| "parse_toks (TAtom a # ts) stack alts items n lr = parse_toks ts stack alts (a # items) n False"
| "parse_toks (TStar g # ts) stack alts items n lr =
     (if lr then None
      else (case items of
              [] \<Rightarrow> None
            | x # xs \<Rightarrow> parse_toks ts stack alts (Star g x # xs) n True))"
| "parse_toks (TPlus g # ts) stack alts items n lr =
     (if lr then None
      else (case items of
              [] \<Rightarrow> None
            | x # xs \<Rightarrow> parse_toks ts stack alts (Cat x (Star g x) # xs) n True))"
| "parse_toks (TQuest g # ts) stack alts items n lr =
     (if lr then None
      else (case items of
              [] \<Rightarrow> None
            | x # xs \<Rightarrow> parse_toks ts stack alts ((if g then Alt x Eps else Alt Eps x) # xs) n True))"
| "parse_toks (TOpen capture # ts) stack alts items n lr =
     (if capture then parse_toks ts ((Some (Suc n), alts, items) # stack) [] [] (Suc n) False
      else parse_toks ts ((None, alts, items) # stack) [] [] n False)"
| "parse_toks (TBar # ts) stack alts items n lr =
     parse_toks ts stack (alts @ [mk_cat items]) [] n False"
| "parse_toks (TClose # ts) stack alts items n lr =
     (case stack of
        [] \<Rightarrow> None
      | (ci, palts, pitems) # stack' \<Rightarrow>
          (let body = mk_alt (alts @ [mk_cat items]);
               atom = (case ci of Some i \<Rightarrow> Cap i body | None \<Rightarrow> body)
           in parse_toks ts stack' palts (atom # pitems) n False))"

definition go_Compile :: "string \<Rightarrow> regexp option" where
  "go_Compile pattern =
     (case lex pattern of
        None \<Rightarrow> None
      | Some ts \<Rightarrow>
          (case parse_toks ts [] [] [] 0 False of
             None \<Rightarrow> None
           | Some (r, n) \<Rightarrow> Some \<lparr>prog = r, numSubexp = n\<rparr>))"

definition go_regexp :: "regexp regexp_lib" where
  "go_regexp = \<lparr>Compile = go_Compile, FindStringSubmatch = go_FindStringSubmatch,
                ReplaceAllString = go_ReplaceAllString\<rparr>"

definition pat :: "string \<Rightarrow> string" where
  \<comment> \<open>a pattern written with \<^verbatim>\<open>%\<close> for the backslash\<close>
  "pat s = map (\<lambda>c. if c = CHR ''%'' then bslash else c) s"


section \<open>Catalog API structures (main.go, lines 56-165)\<close>

record Image =
  CoverType :: string
  URL :: string

record Season =
  SeasonNumber :: int
  Monitored :: bool

record AddOptions =
  IgnoreEpisodesWithFiles :: bool
  IgnoreEpisodesWithoutFiles :: bool
  SearchForMissingEpisodes :: bool

record Series =
  ID :: int
  Title :: string
  SortTitle :: string
  Status :: string
  Overview :: string
  Network :: string
  AirTime :: string
  Images :: "Image list"
  Seasons :: "Season list"
  Year :: int
  Path :: string
  QualityProfileID :: int
  LanguageProfileID :: int
  SeasonFolder :: bool
  Monitored :: bool
  UseSceneNumbering :: bool
  Runtime :: int
  TvdbID :: int
  TvRageID :: int
  TvMazeID :: int
  FirstAired :: string
  SeriesType :: string
  CleanTitle :: string
  ImdbID :: string
  TitleSlug :: string
  RootFolderPath :: string
  Genres :: "string list"
  Tags :: "int list"
  Added :: string
  AddOptions :: AddOptions

record SeriesLookup =
  Title :: string
  SortTitle :: string
  Status :: string
  Overview :: string
  Network :: string
  Images :: "Image list"
  Seasons :: "Season list"
  Year :: int
  TvdbID :: int
  TitleSlug :: string
  Genres :: "string list"
  FirstAired :: string

record Quality =
  ID :: int
  Name :: string

record Language =
  ID :: int
  Name :: string

record ManualImportFile =
  Path :: string
  SeriesID :: int
  SeasonNumber :: int
  Episodes :: "int list"
  Quality :: Quality
  Language :: Language

record ManualImportRequest =
  Files :: "ManualImportFile list"

record Episode =
  ID :: int
  SeriesID :: int
  EpisodeNumber :: int
  SeasonNumber :: int
  Title :: string
  AirDate :: string
  Overview :: string
  HasFile :: bool
  Monitored :: bool

section \<open>Configuration and parsed record (main.go, lines 20-54 and 121-130)\<close>

record SonarrConfig =
  URL :: string
  APIKey :: string
  DownloadsFolder :: string
  QualityProfile :: int
  LanguageProfile :: int
  RootFolder :: string

record AnimePattern =
  Pattern :: string
  TitleGroup :: int
  SeasonGroup :: int
  EpisodeGroup :: int

record ParsingConfig =
  AnimePatterns :: "AnimePattern list"
  SeasonPatterns :: "string list"
  EpisodePatterns :: "string list"
  QualityPatterns :: "string list"
  GroupPatterns :: "string list"

record Transform =
  Search :: string
  Replace :: string

record Config =
  Sonarr :: SonarrConfig
  Parsing :: ParsingConfig
  Transforms :: "Transform list"

record ParsedAnime =
  OriginalFilename :: string
  FilePath :: string
  Title :: string
  Season :: int
  Episode :: int
  Quality :: string
  Group :: string
  Year :: int

text \<open>
  The configuration written by \<^verbatim>\<open>createDefaultConfig\<close> (lines 272-338); its four
  structured patterns are named here, in their order.
\<close>

definition ordinalSeasonPattern :: AnimePattern where
  "ordinalSeasonPattern =
     \<lparr>Pattern = pat ''^(.+?)[%s_]+(%d+)(?:nd|rd|th)?[%s_]+Season[%s_]*%[(%d+)%]'',
      TitleGroup = 1, SeasonGroup = 2, EpisodeGroup = 3\<rparr>"

definition seasonWordPattern :: AnimePattern where
  "seasonWordPattern =
     \<lparr>Pattern = pat ''^(.+?)[%s_]+Season[%s_]+(%d+)[%s_]*%[(%d+)%]'',
      TitleGroup = 1, SeasonGroup = 2, EpisodeGroup = 3\<rparr>"

definition bracketPattern :: AnimePattern where
  "bracketPattern =
     \<lparr>Pattern = pat ''^(.+?)[%s_]*%[(%d+)%]'',
      TitleGroup = 1, SeasonGroup = 0, EpisodeGroup = 2\<rparr>"

definition seasonEpisodePattern :: AnimePattern where
  "seasonEpisodePattern =
     \<lparr>Pattern = pat ''^(.+?)[%s_]+S(%d+)E(%d+)'',
      TitleGroup = 1, SeasonGroup = 2, EpisodeGroup = 3\<rparr>"

definition defaultConfig :: Config where
  "defaultConfig =
     \<lparr>Sonarr =
        \<lparr>SonarrConfig.URL = ''${SONARR_URL:-http://sonarr:8989}'',
         APIKey = ''${SONARR_API_KEY}'',
         DownloadsFolder = ''/downloads'',
         QualityProfile = 1,
         LanguageProfile = 1,
         RootFolder = ''/tv''\<rparr>,
      Parsing =
        \<lparr>AnimePatterns =
           [ordinalSeasonPattern, seasonWordPattern, bracketPattern, seasonEpisodePattern],
         SeasonPatterns =
           [pat ''(%d+)(?:nd|rd|th)?%s+Season'', pat ''Season%s+(%d+)'', pat ''S(%d+)''],
         EpisodePatterns =
           [pat ''%[(%d+)%]'', pat ''E(%d+)'', pat ''Episode%s+(%d+)'', pat ''Ep%s*(%d+)''],
         QualityPatterns = [''1080p'', ''720p'', ''480p'', ''WEBRip'', ''BluRay'', ''DVDRip''],
         GroupPatterns = [pat ''%[([^%]]+)%]$'', pat ''%(([^)]+)%)$'']\<rparr>,
      Transforms =
        [\<lparr>Search = ''_'', Replace = '' ''\<rparr>,
         \<lparr>Search = pat ''%.'', Replace = '' ''\<rparr>,
         \<lparr>Search = pat ''%s+'', Replace = '' ''\<rparr>,
         \<lparr>Search = pat ''^%s+|%s+$'', Replace = []\<rparr>]\<rparr>"

section \<open>Errors and outcomes\<close>

datatype error =
    CouldNotParse                \<comment> \<open>could not parse title or episode from filename\<close>
  | NewRequestError              \<comment> \<open>http.NewRequest returned an error\<close>
  | TransportError               \<comment> \<open>httpClient.Do returned an error\<close>
  | DecodeError                  \<comment> \<open>the JSON decoder returned an error\<close>
  | SeriesNotFound               \<comment> \<open>series not found (findExistingSeries)\<close>
  | NoSeriesFoundFor string      \<comment> \<open>no series found for: title\<close>
  | AddSeriesStatus int          \<comment> \<open>failed to add series, status: code\<close>
  | EpisodeNotFound int int      \<comment> \<open>episode SxxEyy not found\<close>
  | ManualImportStatus int       \<comment> \<open>manual import failed, status: code\<close>
  | ConfigRequired               \<comment> \<open>Sonarr URL and API key are required\<close>
  | FolderNotFound string        \<comment> \<open>downloads folder not found\<close>
  | WalkError                    \<comment> \<open>the directory walk returned an error\<close>
  | Wrap string error            \<comment> \<open>fmt.Errorf with a prefix and the wrapped error\<close>

text \<open>
  A Go function here ends in one of three ways: it returns a value, it returns a
  non-nil error, or it panics (an index out of range).  A panic is not an error value:
  no caller recovers from it.
\<close>

datatype 'a outcome = Returned 'a | Failed error | Panicked

section \<open>Extraction (main.go, lines 453-597)\<close>

fun transformLoop :: "'r regexp_lib \<Rightarrow> Transform list \<Rightarrow> string \<Rightarrow> string" where
  "transformLoop rx [] result = result"
| "transformLoop rx (transform # ts) result =
     (case Compile rx (Search transform) of
        None \<Rightarrow> transformLoop rx ts result
      | Some regex \<Rightarrow>
          (let newResult = ReplaceAllString rx regex result (Replace transform)
           in if newResult \<noteq> result then transformLoop rx ts newResult
              else transformLoop rx ts result))"

definition applyTransforms :: "'r regexp_lib \<Rightarrow> Config \<Rightarrow> string \<Rightarrow> string" where
  "applyTransforms rx cfg input = transformLoop rx (Transforms cfg) input"

definition titlePatterns :: "string list" where
  "titlePatterns =
     [pat ''%s*%[%d+%].*$'', pat ''%s*[Ee]p?%s*%d+.*$'', pat ''%s*[Ee]pisode%s*%d+.*$'',
      pat ''%s*S%d+E%d+.*$'']"

fun stripLoop :: "'r regexp_lib \<Rightarrow> string list \<Rightarrow> string \<Rightarrow> string" where
  "stripLoop rx [] title = title"
| "stripLoop rx (pattern # ps) title =
     (case Compile rx pattern of
        None \<Rightarrow> stripLoop rx ps title
      | Some regex \<Rightarrow> stripLoop rx ps (ReplaceAllString rx regex title []))"

definition extractTitle :: "'r regexp_lib \<Rightarrow> string \<Rightarrow> string" where
  "extractTitle rx filename = TrimSpace (stripLoop rx titlePatterns filename)"

fun episodeLoop :: "'r regexp_lib \<Rightarrow> string list \<Rightarrow> string \<Rightarrow> int" where
  "episodeLoop rx [] filename = 0"
| "episodeLoop rx (pattern # ps) filename =
     (case Compile rx pattern of
        None \<Rightarrow> episodeLoop rx ps filename
      | Some regex \<Rightarrow>
          (let matches = FindStringSubmatch rx regex filename
           in if 2 \<le> length matches then
                (case Atoi (matches ! 1) of
                   Some episode \<Rightarrow> episode
                 | None \<Rightarrow> episodeLoop rx ps filename)
              else episodeLoop rx ps filename))"

definition extractEpisode :: "'r regexp_lib \<Rightarrow> Config \<Rightarrow> string \<Rightarrow> int" where
  "extractEpisode rx cfg filename = episodeLoop rx (EpisodePatterns (Parsing cfg)) filename"

fun qualityLoop :: "string list \<Rightarrow> string \<Rightarrow> string" where
  "qualityLoop [] filename = ''Unknown''"
| "qualityLoop (pattern # ps) filename =
     (if Contains (ToLower filename) (ToLower pattern) then pattern
      else qualityLoop ps filename)"

definition extractQuality :: "Config \<Rightarrow> string \<Rightarrow> string" where
  "extractQuality cfg filename = qualityLoop (QualityPatterns (Parsing cfg)) filename"

fun groupLoop :: "'r regexp_lib \<Rightarrow> string list \<Rightarrow> string \<Rightarrow> string" where
  "groupLoop rx [] filename = ''Unknown''"
| "groupLoop rx (pattern # ps) filename =
     (case Compile rx pattern of
        None \<Rightarrow> groupLoop rx ps filename
      | Some regex \<Rightarrow>
          (let matches = FindStringSubmatch rx regex filename
           in if 2 \<le> length matches then matches ! 1
              else groupLoop rx ps filename))"

definition extractGroup :: "'r regexp_lib \<Rightarrow> Config \<Rightarrow> string \<Rightarrow> string" where
  "extractGroup rx cfg filename = groupLoop rx (GroupPatterns (Parsing cfg)) filename"

definition setSeason :: "AnimePattern \<Rightarrow> string list \<Rightarrow> ParsedAnime \<Rightarrow> ParsedAnime" where
  \<comment> \<open>lines 480-484\<close>
  "setSeason pattern matches anime =
     (if 0 < SeasonGroup pattern \<and> SeasonGroup pattern < int (length matches) then
        (case Atoi (matches ! nat (SeasonGroup pattern)) of
           Some season \<Rightarrow> anime\<lparr>Season := season\<rparr>
         | None \<Rightarrow> anime)
      else anime)"

definition setEpisode :: "AnimePattern \<Rightarrow> string list \<Rightarrow> ParsedAnime \<Rightarrow> ParsedAnime" where
  \<comment> \<open>lines 486-490\<close>
  "setEpisode pattern matches anime =
     (if 0 < EpisodeGroup pattern \<and> EpisodeGroup pattern < int (length matches) then
        (case Atoi (matches ! nat (EpisodeGroup pattern)) of
           Some episode \<Rightarrow> anime\<lparr>Episode := episode\<rparr>
         | None \<Rightarrow> anime)
      else anime)"

fun patternLoop :: "'r regexp_lib \<Rightarrow> AnimePattern list \<Rightarrow> string \<Rightarrow> ParsedAnime \<Rightarrow>
                    ParsedAnime outcome" where
  \<comment> \<open>lines 469-496; the loop ends at the first pattern that compiles and whose match has
      more than TitleGroup entries.  With a negative TitleGroup the length test passes (also
      for no match) and the index expression panics\<close>
  "patternLoop rx [] cleanName anime = Returned anime"
| "patternLoop rx (pattern # ps) cleanName anime =
     (case Compile rx (Pattern pattern) of
        None \<Rightarrow> patternLoop rx ps cleanName anime
      | Some regex \<Rightarrow>
          (let matches = FindStringSubmatch rx regex cleanName
           in if TitleGroup pattern < int (length matches) then
                (if TitleGroup pattern < 0 then Panicked
                 else Returned
                        (setEpisode pattern matches
                          (setSeason pattern matches
                            (anime\<lparr>Title := TrimSpace (matches ! nat (TitleGroup pattern))\<rparr>))))
              else patternLoop rx ps cleanName anime))"

definition cleanNameOf :: "'r regexp_lib \<Rightarrow> Config \<Rightarrow> string \<Rightarrow> string" where
  \<comment> \<open>lines 460-464: the name without its extension, after the transforms.  Line 461
      writes \<^verbatim>\<open>filepath2.Ext\<close>, a package name the file does not import; it is
      read as \<^verbatim>\<open>filepath.Ext\<close>\<close>
  "cleanNameOf rx cfg filename = applyTransforms rx cfg (TrimSuffix filename (Ext filename))"

definition deriveAnime :: "'r regexp_lib \<Rightarrow> Config \<Rightarrow> string \<Rightarrow> string \<Rightarrow> ParsedAnime outcome" where
  \<comment> \<open>lines 454-506 of parseAnimeFilename: the record as it stands before the final check\<close>
  "deriveAnime rx cfg filename filepath =
     (let anime = \<lparr>OriginalFilename = filename, FilePath = filepath, Title = [], Season = 1,
                   Episode = 0, Quality = [], Group = [], Year = 0\<rparr>;
          cleanName = cleanNameOf rx cfg filename
      in case patternLoop rx (AnimePatterns (Parsing cfg)) cleanName anime of
           Returned anime1 \<Rightarrow>
             (let anime2 = (if Title anime1 = []
                            then anime1\<lparr>Title := extractTitle rx cleanName,
                                        Episode := extractEpisode rx cfg cleanName\<rparr>
                            else anime1)
              in Returned (anime2\<lparr>Quality := extractQuality cfg filename,
                                   Group := extractGroup rx cfg filename\<rparr>))
         | Failed e \<Rightarrow> Failed e
         | Panicked \<Rightarrow> Panicked)"

definition parseAnimeFilename :: "'r regexp_lib \<Rightarrow> Config \<Rightarrow> string \<Rightarrow> string \<Rightarrow> ParsedAnime outcome" where
  \<comment> \<open>lines 508-512 on top of the record built before\<close>
  "parseAnimeFilename rx cfg filename filepath =
     (case deriveAnime rx cfg filename filepath of
        Returned anime \<Rightarrow>
          if Title anime = [] \<or> Episode anime = 0 then Failed CouldNotParse else Returned anime
      | Failed e \<Rightarrow> Failed e
      | Panicked \<Rightarrow> Panicked)"


section \<open>The catalog client (net/http and encoding/json at the boundary)\<close>

text \<open>
  The remote catalog is outside the program.  A request is the value handed to
  \<^verbatim>\<open>httpClient.Do\<close>; the answer is either a transport error (None) or a status code
  with a body.  A body is modelled by what the JSON decoder yields from it at each of
  the four types the program decodes into (None: the decoder returns an error).
  \<open>NewRequest\<close> says for which URL \<^verbatim>\<open>http.NewRequest\<close> succeeds (the
  methods used are the constants GET, POST and PUT, which it accepts).
  The catalog has a state of its own (type \<open>'w\<close>) that every call may change.
  The run state keeps that state, the requests sent so far and the log lines written.
  \<^verbatim>\<open>json.Marshal\<close> cannot fail on the structures marshalled here, so those error
  branches are not modelled.
\<close>

datatype payload = NoBody | SeriesPayload Series | ManualImportPayload ManualImportRequest

record request =
  Method :: string
  Url :: string
  Header :: "(string \<times> string) list"
  Payload :: payload

record json_body =
  asSeriesArray :: "Series list option"
  asLookupArray :: "SeriesLookup list option"
  asEpisodeArray :: "Episode list option"
  asSeries :: "Series option"

record response =
  StatusCode :: int
  ResponseBody :: json_body

record 'w http_client =
  NewRequest :: "string \<Rightarrow> bool"
  Do :: "'w \<Rightarrow> request \<Rightarrow> response option \<times> 'w"

datatype message =
    FoundExistingSeries string int
  | SeriesNotFoundSearching string
  | FoundSeriesOption string int
  | AddedNewSeries string int
  | Parsed string int int
  | DryRunWouldProcess string
  | SuccessfullyImported string int int
  | FailedToProcess string error
  | FoundVideoFiles nat string
  | NoVideoFiles
  | ProcessingComplete nat nat

datatype log_line = INFO message | ERROR message

record 'w run_state =
  world :: 'w
  sent :: "request list"
  logs :: "log_line list"

definition logInfo :: "message \<Rightarrow> 'w run_state \<Rightarrow> 'w run_state" where
  "logInfo m st = st\<lparr>logs := logs st @ [INFO m]\<rparr>"

definition logError :: "message \<Rightarrow> 'w run_state \<Rightarrow> 'w run_state" where
  "logError m st = st\<lparr>logs := logs st @ [ERROR m]\<rparr>"

definition send :: "'w http_client \<Rightarrow> request \<Rightarrow> 'w run_state \<Rightarrow> response option \<times> 'w run_state" where
  \<comment> \<open>httpClient.Do: the request goes out, the catalog answers and moves on\<close>
  "send client req st =
     (case Do client (world st) req of
        (resp, w) \<Rightarrow> (resp, st\<lparr>world := w, sent := sent st @ [req]\<rparr>))"

definition decodeSeriesArray :: "json_body \<Rightarrow> Series list option" where
  "decodeSeriesArray j = asSeriesArray j"

definition decodeLookupArray :: "json_body \<Rightarrow> SeriesLookup list option" where
  "decodeLookupArray j = asLookupArray j"

definition decodeEpisodeArray :: "json_body \<Rightarrow> Episode list option" where
  "decodeEpisodeArray j = asEpisodeArray j"

definition decodeSeries :: "json_body \<Rightarrow> Series option" where
  "decodeSeries j = asSeries j"

fun nat_digits :: "nat \<Rightarrow> string" where
  "nat_digits n =
     (if n < 10 then [digit_chars ! n] else nat_digits (n div 10) @ [digit_chars ! (n mod 10)])"

definition Itoa :: "int \<Rightarrow> string" where
  \<comment> \<open>the verb d of fmt.Sprintf on an int\<close>
  "Itoa i = (if i < 0 then CHR ''-'' # nat_digits (nat (- i)) else nat_digits (nat i))"

definition apiUrl :: "Config \<Rightarrow> string \<Rightarrow> string" where
  "apiUrl cfg path = TrimRight (SonarrConfig.URL (Sonarr cfg)) ''/'' @ path"

section \<open>Reconciliation (main.go, lines 599-819)\<close>

text \<open>The requests that the functions below build.\<close>

definition seriesListRequest :: "Config \<Rightarrow> request" where
  "seriesListRequest cfg =
     \<lparr>Method = ''GET'', Url = apiUrl cfg ''/api/v3/series'',
      Header = [(''X-Api-Key'', APIKey (Sonarr cfg))], Payload = NoBody\<rparr>"

definition lookupRequest :: "Config \<Rightarrow> string \<Rightarrow> request" where
  "lookupRequest cfg title =
     \<lparr>Method = ''GET'', Url = apiUrl cfg ''/api/v3/series/lookup?term='' @ title,
      Header = [(''X-Api-Key'', APIKey (Sonarr cfg))], Payload = NoBody\<rparr>"

definition createRequest :: "Config \<Rightarrow> Series \<Rightarrow> request" where
  "createRequest cfg series =
     \<lparr>Method = ''POST'', Url = apiUrl cfg ''/api/v3/series'',
      Header = [(''Content-Type'', ''application/json''), (''X-Api-Key'', APIKey (Sonarr cfg))],
      Payload = SeriesPayload series\<rparr>"

definition episodeListRequest :: "Config \<Rightarrow> int \<Rightarrow> request" where
  "episodeListRequest cfg seriesID =
     \<lparr>Method = ''GET'', Url = apiUrl cfg ''/api/v3/episode?seriesId='' @ Itoa seriesID,
      Header = [(''X-Api-Key'', APIKey (Sonarr cfg))], Payload = NoBody\<rparr>"

definition importRequest :: "Config \<Rightarrow> ManualImportRequest \<Rightarrow> request" where
  "importRequest cfg request =
     \<lparr>Method = ''PUT'', Url = apiUrl cfg ''/api/v3/manualimport'',
      Header = [(''Content-Type'', ''application/json''), (''X-Api-Key'', APIKey (Sonarr cfg))],
      Payload = ManualImportPayload request\<rparr>"

fun seriesLoop :: "Series list \<Rightarrow> string \<Rightarrow> int option" where
  \<comment> \<open>lines 650-654: the ID of the first series whose title or sort title matches\<close>
  "seriesLoop [] cleanTitle = None"
| "seriesLoop (s # ss) cleanTitle =
     (if ToLower (Series.Title s) = cleanTitle \<or> ToLower (Series.SortTitle s) = cleanTitle
      then Some (Series.ID s)
      else seriesLoop ss cleanTitle)"

definition findExistingSeries ::
  "'w http_client \<Rightarrow> Config \<Rightarrow> string \<Rightarrow> 'w run_state \<Rightarrow> (error + int) \<times> 'w run_state" where
  "findExistingSeries client cfg title st =
     (if \<not> NewRequest client (Url (seriesListRequest cfg)) then (Inl NewRequestError, st)
      else
        (case send client (seriesListRequest cfg) st of
           (None, st1) \<Rightarrow> (Inl TransportError, st1)
         | (Some resp, st1) \<Rightarrow>
             (case decodeSeriesArray (ResponseBody resp) of
                None \<Rightarrow> (Inl DecodeError, st1)
              | Some series \<Rightarrow>
                  (case seriesLoop series (ToLower (TrimSpace title)) of
                     Some seriesID \<Rightarrow> (Inr seriesID, st1)
                   | None \<Rightarrow> (Inl SeriesNotFound, st1)))))"

definition searchSeries ::
  "'w http_client \<Rightarrow> Config \<Rightarrow> string \<Rightarrow> 'w run_state \<Rightarrow>
   (error + SeriesLookup list) \<times> 'w run_state" where
  "searchSeries client cfg title st =
     (if \<not> NewRequest client (Url (lookupRequest cfg title)) then (Inl NewRequestError, st)
      else
        (case send client (lookupRequest cfg title) st of
           (None, st1) \<Rightarrow> (Inl TransportError, st1)
         | (Some resp, st1) \<Rightarrow>
             (case decodeLookupArray (ResponseBody resp) of
                None \<Rightarrow> (Inl DecodeError, st1)
              | Some results \<Rightarrow> (Inr results, st1))))"

definition newSeries :: "Config \<Rightarrow> SeriesLookup \<Rightarrow> Series" where
  \<comment> \<open>lines 684-709: the series built from a lookup result; fields not set are zero.
      Line 699 reads \<^verbatim>\<open>seriesLookup.TvdbId\<close>; the field is declared as
      \<^verbatim>\<open>TvdbID\<close>\<close>
  "newSeries cfg seriesLookup =
     \<lparr>Series.ID = 0,
      Series.Title = SeriesLookup.Title seriesLookup,
      Series.SortTitle = SeriesLookup.SortTitle seriesLookup,
      Series.Status = SeriesLookup.Status seriesLookup,
      Series.Overview = SeriesLookup.Overview seriesLookup,
      Series.Network = SeriesLookup.Network seriesLookup,
      AirTime = [],
      Series.Images = SeriesLookup.Images seriesLookup,
      Series.Seasons = SeriesLookup.Seasons seriesLookup,
      Series.Year = SeriesLookup.Year seriesLookup,
      Series.Path = Join [RootFolder (Sonarr cfg), SeriesLookup.TitleSlug seriesLookup],
      QualityProfileID = QualityProfile (Sonarr cfg),
      LanguageProfileID = LanguageProfile (Sonarr cfg),
      SeasonFolder = True,
      Series.Monitored = True,
      UseSceneNumbering = False,
      Runtime = 0,
      Series.TvdbID = SeriesLookup.TvdbID seriesLookup,
      TvRageID = 0,
      TvMazeID = 0,
      Series.FirstAired = [],
      SeriesType = [],
      CleanTitle = [],
      ImdbID = [],
      Series.TitleSlug = SeriesLookup.TitleSlug seriesLookup,
      RootFolderPath = RootFolder (Sonarr cfg),
      Series.Genres = SeriesLookup.Genres seriesLookup,
      Tags = [],
      Added = [],
      AddOptions = \<lparr>IgnoreEpisodesWithFiles = False, IgnoreEpisodesWithoutFiles = False,
                     SearchForMissingEpisodes = False\<rparr>\<rparr>"

definition addSeries ::
  "'w http_client \<Rightarrow> Config \<Rightarrow> SeriesLookup \<Rightarrow> ParsedAnime \<Rightarrow> 'w run_state \<Rightarrow>
   (error + int) \<times> 'w run_state" where
  "addSeries client cfg seriesLookup anime st =
     (let series = newSeries cfg seriesLookup
      in if \<not> NewRequest client (Url (createRequest cfg series)) then (Inl NewRequestError, st)
         else
           (case send client (createRequest cfg series) st of
              (None, st1) \<Rightarrow> (Inl TransportError, st1)
            | (Some resp, st1) \<Rightarrow>
                if StatusCode resp < 200 \<or> 300 \<le> StatusCode resp
                then (Inl (AddSeriesStatus (StatusCode resp)), st1)
                else
                  (case decodeSeries (ResponseBody resp) of
                     None \<Rightarrow> (Inl DecodeError, st1)
                   | Some addedSeries \<Rightarrow>
                       (Inr (Series.ID addedSeries),
                        logInfo (AddedNewSeries (Series.Title addedSeries) (Series.ID addedSeries))
                          st1))))"

definition searchAndAdd ::
  "'w http_client \<Rightarrow> Config \<Rightarrow> ParsedAnime \<Rightarrow> 'w run_state \<Rightarrow> (error + int) \<times> 'w run_state" where
  \<comment> \<open>lines 607-624 of findOrCreateSeries: what follows when no existing series was adopted\<close>
  "searchAndAdd client cfg anime st =
     (case searchSeries client cfg (ParsedAnime.Title anime)
             (logInfo (SeriesNotFoundSearching (ParsedAnime.Title anime)) st) of
        (Inl err, st2) \<Rightarrow> (Inl (Wrap ''failed to search for series'' err), st2)
      | (Inr seriesOptions, st2) \<Rightarrow>
          (case seriesOptions of
             [] \<Rightarrow> (Inl (NoSeriesFoundFor (ParsedAnime.Title anime)), st2)
           | selectedSeries # others \<Rightarrow>
               addSeries client cfg selectedSeries anime
                 (logInfo (FoundSeriesOption (SeriesLookup.Title selectedSeries)
                             (SeriesLookup.Year selectedSeries)) st2)))"

definition findOrCreateSeries ::
  "'w http_client \<Rightarrow> Config \<Rightarrow> ParsedAnime \<Rightarrow> 'w run_state \<Rightarrow> (error + int) \<times> 'w run_state" where
  \<comment> \<open>lines 601-605, then the rest; the existing series is adopted only when the lookup
      returned no error and a positive ID\<close>
  "findOrCreateSeries client cfg anime st =
     (case findExistingSeries client cfg (ParsedAnime.Title anime) st of
        (Inr seriesID, st1) \<Rightarrow>
          if 0 < seriesID
          then (Inr seriesID, logInfo (FoundExistingSeries (ParsedAnime.Title anime) seriesID) st1)
          else searchAndAdd client cfg anime st1
      | (Inl err, st1) \<Rightarrow> searchAndAdd client cfg anime st1)"

fun episodeScan :: "Episode list \<Rightarrow> int \<Rightarrow> int \<Rightarrow> int option" where
  \<comment> \<open>lines 765-769\<close>
  "episodeScan [] seasonNumber episodeNumber = None"
| "episodeScan (episode # es) seasonNumber episodeNumber =
     (if Episode.SeasonNumber episode = seasonNumber \<and> EpisodeNumber episode = episodeNumber
      then Some (Episode.ID episode)
      else episodeScan es seasonNumber episodeNumber)"

definition findEpisode ::
  "'w http_client \<Rightarrow> Config \<Rightarrow> int \<Rightarrow> int \<Rightarrow> int \<Rightarrow> 'w run_state \<Rightarrow>
   (error + int) \<times> 'w run_state" where
  "findEpisode client cfg seriesID seasonNumber episodeNumber st =
     (if \<not> NewRequest client (Url (episodeListRequest cfg seriesID))
      then (Inl NewRequestError, st)
      else
        (case send client (episodeListRequest cfg seriesID) st of
           (None, st1) \<Rightarrow> (Inl TransportError, st1)
         | (Some resp, st1) \<Rightarrow>
             (case decodeEpisodeArray (ResponseBody resp) of
                None \<Rightarrow> (Inl DecodeError, st1)
              | Some episodes \<Rightarrow>
                  (case episodeScan episodes seasonNumber episodeNumber of
                     Some episodeID \<Rightarrow> (Inr episodeID, st1)
                   | None \<Rightarrow> (Inl (EpisodeNotFound seasonNumber episodeNumber), st1)))))"

definition manualImport ::
  "'w http_client \<Rightarrow> Config \<Rightarrow> ParsedAnime \<Rightarrow> int \<Rightarrow> int \<Rightarrow> 'w run_state \<Rightarrow>
   error option \<times> 'w run_state" where
  \<comment> \<open>None is the nil error\<close>
  "manualImport client cfg anime seriesID episodeID st =
     (let importFile =
            \<lparr>ManualImportFile.Path = FilePath anime,
             ManualImportFile.SeriesID = seriesID,
             ManualImportFile.SeasonNumber = ParsedAnime.Season anime,
             Episodes = [episodeID],
             ManualImportFile.Quality = \<lparr>Quality.ID = 1, Quality.Name = ''HDTV-1080p''\<rparr>,
             Language = \<lparr>Language.ID = 1, Language.Name = ''English''\<rparr>\<rparr>;
          request = \<lparr>Files = [importFile]\<rparr>
      in if \<not> NewRequest client (Url (importRequest cfg request)) then (Some NewRequestError, st)
         else
           (case send client (importRequest cfg request) st of
              (None, st1) \<Rightarrow> (Some TransportError, st1)
            | (Some resp, st1) \<Rightarrow>
                if StatusCode resp < 200 \<or> 300 \<le> StatusCode resp
                then (Some (ManualImportStatus (StatusCode resp)), st1)
                else (None, st1)))"

section \<open>Per-file processing and the batch (main.go, lines 354-451)\<close>

text \<open>
  \<^verbatim>\<open>config\<close>, \<^verbatim>\<open>dryRun\<close> and the HTTP client are globals in the source; here they are
  arguments.  Lines written with \<^verbatim>\<open>logVerbose\<close> and the log lines of the extraction
  functions are not recorded.
\<close>

definition processAnimeFile ::
  "'w http_client \<Rightarrow> 'r regexp_lib \<Rightarrow> Config \<Rightarrow> bool \<Rightarrow> string \<Rightarrow> 'w run_state \<Rightarrow>
   unit outcome \<times> 'w run_state" where
  "processAnimeFile client rx cfg dryRun filePath st =
     (let fileName = Base filePath
      in case parseAnimeFilename rx cfg fileName filePath of
           Panicked \<Rightarrow> (Panicked, st)
         | Failed err \<Rightarrow> (Failed (Wrap ''failed to parse anime info'' err), st)
         | Returned anime \<Rightarrow>
             (let st1 = logInfo (Parsed (ParsedAnime.Title anime) (ParsedAnime.Season anime)
                                   (ParsedAnime.Episode anime)) st
              in if dryRun then
                   (Returned (), logInfo (DryRunWouldProcess (ParsedAnime.Title anime)) st1)
                 else
                   (case findOrCreateSeries client cfg anime st1 of
                      (Inl err, st2) \<Rightarrow> (Failed (Wrap ''failed to find/create series'' err), st2)
                    | (Inr seriesID, st2) \<Rightarrow>
                        (case findEpisode client cfg seriesID (ParsedAnime.Season anime)
                                (ParsedAnime.Episode anime) st2 of
                           (Inl err, st3) \<Rightarrow> (Failed (Wrap ''failed to find episode'' err), st3)
                         | (Inr episodeID, st3) \<Rightarrow>
                             (case manualImport client cfg anime seriesID episodeID st3 of
                                (Some err, st4) \<Rightarrow>
                                  (Failed (Wrap ''failed to import file'' err), st4)
                              | (None, st4) \<Rightarrow>
                                  (Returned (),
                                   logInfo (SuccessfullyImported (ParsedAnime.Title anime)
                                              (ParsedAnime.Season anime)
                                              (ParsedAnime.Episode anime)) st4))))))"

fun processLoop ::
  "'w http_client \<Rightarrow> 'r regexp_lib \<Rightarrow> Config \<Rightarrow> bool \<Rightarrow> string list \<Rightarrow> nat \<Rightarrow> 'w run_state \<Rightarrow>
   nat outcome \<times> 'w run_state" where
  \<comment> \<open>lines 379-386: \<open>processed\<close> counts the files processed without error\<close>
  "processLoop client rx cfg dryRun [] processed st = (Returned processed, st)"
| "processLoop client rx cfg dryRun (file # files) processed st =
     (case processAnimeFile client rx cfg dryRun file st of
        (Panicked, st1) \<Rightarrow> (Panicked, st1)
      | (Failed err, st1) \<Rightarrow>
          processLoop client rx cfg dryRun files processed
            (logError (FailedToProcess (Base file) err) st1)
      | (Returned u, st1) \<Rightarrow> processLoop client rx cfg dryRun files (Suc processed) st1)"

definition videoExtensions :: "string list" where
  "videoExtensions =
     [''.mp4'', ''.mkv'', ''.avi'', ''.m4v'', ''.mov'', ''.wmv'', ''.flv'', ''.webm'', ''.ts'',
      ''.m2ts'']"

text \<open>
  The file system is outside the program: \<open>NotExist\<close> says for which path
  \<^verbatim>\<open>os.Stat\<close> reports that the path does not exist, and \<open>WalkDir\<close> gives the calls
  that \<^verbatim>\<open>filepath.WalkDir\<close> makes to its callback, in order.
\<close>

datatype walk_entry = WalkFailure | Directory string | RegularFile string

record filesystem =
  NotExist :: "string \<Rightarrow> bool"
  WalkDir :: "string \<Rightarrow> walk_entry list"

fun walkLoop :: "walk_entry list \<Rightarrow> string list \<Rightarrow> string list \<times> bool" where
  \<comment> \<open>the callback of findVideoFiles; the flag says that the walk ended with an error\<close>
  "walkLoop [] videoFiles = (videoFiles, False)"
| "walkLoop (WalkFailure # es) videoFiles = (videoFiles, True)"
| "walkLoop (Directory path # es) videoFiles = walkLoop es videoFiles"
| "walkLoop (RegularFile path # es) videoFiles =
     (if ToLower (Ext path) \<in> set videoExtensions then walkLoop es (videoFiles @ [path])
      else walkLoop es videoFiles)"

definition findVideoFiles :: "filesystem \<Rightarrow> string \<Rightarrow> string list \<times> bool" where
  "findVideoFiles fs rootPath = walkLoop (WalkDir fs rootPath) []"

definition processAnimeFiles ::
  "filesystem \<Rightarrow> 'w http_client \<Rightarrow> 'r regexp_lib \<Rightarrow> Config \<Rightarrow> bool \<Rightarrow> 'w run_state \<Rightarrow>
   unit outcome \<times> 'w run_state" where
  "processAnimeFiles fs client rx cfg dryRun st =
     (if SonarrConfig.URL (Sonarr cfg) = [] \<or> APIKey (Sonarr cfg) = [] then (Failed ConfigRequired, st)
      else if NotExist fs (DownloadsFolder (Sonarr cfg))
      then (Failed (FolderNotFound (DownloadsFolder (Sonarr cfg))), st)
      else
        (case findVideoFiles fs (DownloadsFolder (Sonarr cfg)) of
           (videoFiles, True) \<Rightarrow> (Failed (Wrap ''failed to scan for video files'' WalkError), st)
         | (videoFiles, False) \<Rightarrow>
             (let st1 = logInfo (FoundVideoFiles (length videoFiles) (DownloadsFolder (Sonarr cfg))) st
              in if length videoFiles = 0 then (Returned (), logInfo NoVideoFiles st1)
                 else
                   (case processLoop client rx cfg dryRun videoFiles 0 st1 of
                      (Returned processed, st2) \<Rightarrow>
                        (Returned (),
                         logInfo (ProcessingComplete processed (length videoFiles)) st2)
                    | (Failed err, st2) \<Rightarrow> (Failed err, st2)
                    | (Panicked, st2) \<Rightarrow> (Panicked, st2)))))"


section \<open>Notions used in the statements\<close>

text \<open>
  One rule of the transform pipeline as the specification words it: a rule whose
  pattern does not compile leaves the name as it is, any other rule replaces all
  matches.
\<close>

definition applyRule :: "'r regexp_lib \<Rightarrow> string \<Rightarrow> Transform \<Rightarrow> string" where
  "applyRule rx name rule =
     (case Compile rx (Search rule) of
        None \<Rightarrow> name
      | Some regex \<Rightarrow> ReplaceAllString rx regex name (Replace rule))"

text \<open>
  A structured pattern fires on a name when it compiles and its match has more entries
  than its title group index: the test at which the pattern loop ends.  The captured
  title, season and episode are read off the match as the loop body does.
\<close>

definition fires :: "'r regexp_lib \<Rightarrow> AnimePattern \<Rightarrow> string \<Rightarrow> bool" where
  "fires rx pattern name =
     (case Compile rx (Pattern pattern) of
        None \<Rightarrow> False
      | Some regex \<Rightarrow> TitleGroup pattern < int (length (FindStringSubmatch rx regex name)))"

definition patternMatches :: "'r regexp_lib \<Rightarrow> AnimePattern \<Rightarrow> string \<Rightarrow> string list" where
  "patternMatches rx pattern name =
     (case Compile rx (Pattern pattern) of
        None \<Rightarrow> []
      | Some regex \<Rightarrow> FindStringSubmatch rx regex name)"

definition capturedTitle :: "AnimePattern \<Rightarrow> string list \<Rightarrow> string" where
  "capturedTitle pattern matches = TrimSpace (matches ! nat (TitleGroup pattern))"

definition capturedSeason :: "AnimePattern \<Rightarrow> string list \<Rightarrow> int" where
  "capturedSeason pattern matches =
     (if 0 < SeasonGroup pattern \<and> SeasonGroup pattern < int (length matches) then
        (case Atoi (matches ! nat (SeasonGroup pattern)) of Some n \<Rightarrow> n | None \<Rightarrow> 1)
      else 1)"

definition capturedEpisode :: "AnimePattern \<Rightarrow> string list \<Rightarrow> int" where
  "capturedEpisode pattern matches =
     (if 0 < EpisodeGroup pattern \<and> EpisodeGroup pattern < int (length matches) then
        (case Atoi (matches ! nat (EpisodeGroup pattern)) of Some n \<Rightarrow> n | None \<Rightarrow> 0)
      else 0)"

definition noPatternFires :: "'r regexp_lib \<Rightarrow> Config \<Rightarrow> string \<Rightarrow> bool" where
  "noPatternFires rx cfg name = list_all (\<lambda>p. \<not> fires rx p name) (AnimePatterns (Parsing cfg))"


text \<open>
  A catalog series matches a title when its title or its sort title equals the trimmed
  title up to case: the test of the series scan.
\<close>

definition titleMatches :: "Series \<Rightarrow> string \<Rightarrow> bool" where
  "titleMatches s title =
     (ToLower (Series.Title s) = ToLower (TrimSpace title) \<or>
      ToLower (Series.SortTitle s) = ToLower (TrimSpace title))"

text \<open>
  Batch isolation as the specification words it: every file is attempted, in order,
  whatever the outcome of the files before it; an error is logged with the name of the
  file.  \<open>runAll\<close> gives the outcomes, one per file, and the run state at the end.
\<close>

fun runAll ::
  "'w http_client \<Rightarrow> 'r regexp_lib \<Rightarrow> Config \<Rightarrow> bool \<Rightarrow> string list \<Rightarrow> 'w run_state \<Rightarrow>
   unit outcome list \<times> 'w run_state" where
  "runAll client rx cfg dryRun [] st = ([], st)"
| "runAll client rx cfg dryRun (file # files) st =
     (case processAnimeFile client rx cfg dryRun file st of
        (r, st1) \<Rightarrow>
          (case runAll client rx cfg dryRun files
                  (case r of
                     Failed err \<Rightarrow> logError (FailedToProcess (Base file) err) st1
                   | _ \<Rightarrow> st1) of
             (rs, st2) \<Rightarrow> (r # rs, st2)))"

definition succeeded :: "unit outcome \<Rightarrow> bool" where
  "succeeded r = (r = Returned ())"

definition batchStart :: "Config \<Rightarrow> string list \<Rightarrow> 'w run_state \<Rightarrow> 'w run_state" where
  \<comment> \<open>the run state when the batch loop starts: the number of files found is logged\<close>
  "batchStart cfg files st =
     logInfo (FoundVideoFiles (length files) (DownloadsFolder (Sonarr cfg))) st"

text \<open>
  An example catalog for the workflow: bodies that decode at one type only, a client
  that answers every request (a POST with the response \<open>created\<close>, a PUT with status
  200, a GET by its URL with one of the three lists), a configuration with a URL and a
  key, and a file system with a few files.
\<close>

definition Undecodable :: json_body where
  "Undecodable =
     \<lparr>asSeriesArray = None, asLookupArray = None, asEpisodeArray = None, asSeries = None\<rparr>"

definition SeriesArray :: "Series list \<Rightarrow> json_body" where
  "SeriesArray xs = Undecodable\<lparr>asSeriesArray := Some xs\<rparr>"

definition LookupArray :: "SeriesLookup list \<Rightarrow> json_body" where
  "LookupArray xs = Undecodable\<lparr>asLookupArray := Some xs\<rparr>"

definition EpisodeArray :: "Episode list \<Rightarrow> json_body" where
  "EpisodeArray xs = Undecodable\<lparr>asEpisodeArray := Some xs\<rparr>"

definition SeriesObject :: "Series \<Rightarrow> json_body" where
  "SeriesObject x = Undecodable\<lparr>asSeries := Some x\<rparr>"

definition stubClient ::
  "Series list \<Rightarrow> SeriesLookup list \<Rightarrow> Episode list \<Rightarrow> response \<Rightarrow> unit http_client" where
  "stubClient series candidates episodes created =
     \<lparr>NewRequest = (\<lambda>url. True),
      Do = (\<lambda>w req.
              (Some (if Method req = ''POST'' then created
                     else if Method req = ''PUT''
                     then \<lparr>StatusCode = 200, ResponseBody = Undecodable\<rparr>
                     else if Contains (Url req) ''/lookup''
                     then \<lparr>StatusCode = 200, ResponseBody = LookupArray candidates\<rparr>
                     else if Contains (Url req) ''/episode''
                     then \<lparr>StatusCode = 200, ResponseBody = EpisodeArray episodes\<rparr>
                     else \<lparr>StatusCode = 200, ResponseBody = SeriesArray series\<rparr>), w))\<rparr>"

definition seriesNamed :: "int \<Rightarrow> string \<Rightarrow> Series" where
  "seriesNamed i t =
     \<lparr>Series.ID = i, Series.Title = t, Series.SortTitle = [], Series.Status = [],
      Series.Overview = [], Series.Network = [], AirTime = [], Series.Images = [],
      Series.Seasons = [], Series.Year = 0, Series.Path = [], QualityProfileID = 0,
      LanguageProfileID = 0, SeasonFolder = False, Series.Monitored = False,
      UseSceneNumbering = False, Runtime = 0, Series.TvdbID = 0, TvRageID = 0, TvMazeID = 0,
      Series.FirstAired = [], SeriesType = [], CleanTitle = [], ImdbID = [],
      Series.TitleSlug = [], RootFolderPath = [], Series.Genres = [], Tags = [], Added = [],
      AddOptions = \<lparr>IgnoreEpisodesWithFiles = False, IgnoreEpisodesWithoutFiles = False,
                     SearchForMissingEpisodes = False\<rparr>\<rparr>"

definition candidateNamed :: "string \<Rightarrow> string \<Rightarrow> SeriesLookup" where
  "candidateNamed t slug =
     \<lparr>SeriesLookup.Title = t, SeriesLookup.SortTitle = [], SeriesLookup.Status = [],
      SeriesLookup.Overview = [], SeriesLookup.Network = [], SeriesLookup.Images = [],
      SeriesLookup.Seasons = [], SeriesLookup.Year = 2020, SeriesLookup.TvdbID = 0,
      SeriesLookup.TitleSlug = slug, SeriesLookup.Genres = [], SeriesLookup.FirstAired = []\<rparr>"

definition episodeOf :: "int \<Rightarrow> int \<Rightarrow> int \<Rightarrow> Episode" where
  "episodeOf i season number =
     \<lparr>Episode.ID = i, Episode.SeriesID = 5, EpisodeNumber = number,
      Episode.SeasonNumber = season, Episode.Title = [], AirDate = [], Episode.Overview = [],
      HasFile = False, Episode.Monitored = True\<rparr>"

definition animeOf :: "string \<Rightarrow> int \<Rightarrow> int \<Rightarrow> ParsedAnime" where
  "animeOf t season episode =
     \<lparr>OriginalFilename = [], FilePath = [], Title = t, Season = season, Episode = episode,
      Quality = ''Unknown'', Group = ''Unknown'', Year = 0\<rparr>"

definition exampleConfig :: Config where
  "exampleConfig =
     defaultConfig\<lparr>Sonarr := (Sonarr defaultConfig)
                     \<lparr>SonarrConfig.URL := ''http://sonarr:8989/'', APIKey := ''secret''\<rparr>\<rparr>"

definition startState :: "unit run_state" where
  "startState = \<lparr>world = (), sent = [], logs = []\<rparr>"

definition exampleFiles :: filesystem where
  "exampleFiles =
     \<lparr>NotExist = (\<lambda>path. False),
      WalkDir = (\<lambda>root.
        [Directory ''/downloads'',
         RegularFile ''/downloads/Show Name [12].MKV'',
         RegularFile ''/downloads/notes.txt'',
         RegularFile ''/downloads/randomfile.mkv''])\<rparr>"

definition exampleCatalog :: "unit http_client" where
  "exampleCatalog =
     stubClient [seriesNamed 3 ''Other Show'', seriesNamed 5 ''SHOW name'']
       [candidateNamed ''Show Title'' ''show-title'', candidateNamed ''Show Title Z'' ''show-title-z'']
       [episodeOf 100 1 11, episodeOf 101 1 12, episodeOf 102 1 12, episodeOf 207 2 7]
       \<lparr>StatusCode = 201, ResponseBody = SeriesObject (seriesNamed 7 ''Show Title'')\<rparr>"

definition zeroIdCatalog :: "unit http_client" where
  "zeroIdCatalog =
     stubClient [seriesNamed 0 ''Show Name'']
       [candidateNamed ''Show Name'' ''show-name'']
       []
       \<lparr>StatusCode = 201, ResponseBody = SeriesObject (seriesNamed 7 ''Show Name'')\<rparr>"

text \<open>
  Example configurations: one whose first pattern can match with an empty title, and
  the default one without its bracket-only pattern.
\<close>

definition optionalTitlePattern :: AnimePattern where
  "optionalTitlePattern =
     \<lparr>Pattern = pat ''^(.*?)[%s_]*%[(%d+)%]'', TitleGroup = 1, SeasonGroup = 0,
      EpisodeGroup = 2\<rparr>"

definition numberFirstPattern :: AnimePattern where
  "numberFirstPattern =
     \<lparr>Pattern = pat ''^%[(%d+)%][%s_]*(.+)$'', TitleGroup = 2, SeasonGroup = 0,
      EpisodeGroup = 1\<rparr>"

definition numberFirstConfig :: Config where
  "numberFirstConfig =
     defaultConfig\<lparr>Parsing := (Parsing defaultConfig)
                     \<lparr>AnimePatterns := [optionalTitlePattern, numberFirstPattern]\<rparr>\<rparr>"

definition fallbackConfig :: Config where
  "fallbackConfig =
     defaultConfig\<lparr>Parsing := (Parsing defaultConfig)
                     \<lparr>AnimePatterns := [ordinalSeasonPattern, seasonWordPattern,
                                        seasonEpisodePattern]\<rparr>\<rparr>"

section \<open>Transform pipeline\<close>

lemma transformLoop_fold: "transformLoop rx ts name = foldl (applyRule rx) name ts"
  by (induction ts arbitrary: name) (simp_all add: applyRule_def Let_def split: option.split)

text \<open>
  C9.  The transform pipeline is the left-to-right fold of the configured rules over the
  input: every rule is applied to the output of the rules before it (whatever the rules
  after it are), a rule that compiles replaces all matches (\<open>ReplaceAllString\<close>), and
  a rule whose pattern does not compile is skipped, the rules after it being applied as
  if it were absent.
\<close>

theorem transforms_fold:
  "applyTransforms rx cfg name = foldl (applyRule rx) name (Transforms cfg) \<and>
   foldl (applyRule rx) name (before @ rule # after) =
     foldl (applyRule rx) (applyRule rx (foldl (applyRule rx) name before) rule) after \<and>
   (Compile rx (Search bad) = None \<longrightarrow>
      foldl (applyRule rx) name (before @ bad # after) =
      foldl (applyRule rx) (foldl (applyRule rx) name before) after)"
  by (simp add: applyTransforms_def transformLoop_fold applyRule_def)

theorem transforms_fold_witness:
  "Compile go_regexp (Search \<lparr>Search = ''a**'', Replace = ''x''\<rparr>) = None \<and>
   applyTransforms go_regexp
     (defaultConfig\<lparr>Transforms := [\<lparr>Search = ''_'', Replace = '' ''\<rparr>,
                                   \<lparr>Search = ''a**'', Replace = ''x''\<rparr>,
                                   \<lparr>Search = pat ''%s+'', Replace = '' ''\<rparr>]\<rparr>)
     ''My_Show__[5]'' = ''My Show [5]''"
proof -
  have c: "Compile go_regexp (Search \<lparr>Search = ''a**'', Replace = ''x''\<rparr>) = None"
    by code_simp
  have e: "foldl (applyRule go_regexp)
             (foldl (applyRule go_regexp) ''My_Show__[5]'' [\<lparr>Search = ''_'', Replace = '' ''\<rparr>])
             [\<lparr>Search = pat ''%s+'', Replace = '' ''\<rparr>] = ''My Show [5]''"
    by code_simp
  show ?thesis
    using c e
      transforms_fold [where rx = go_regexp
        and cfg = "defaultConfig\<lparr>Transforms := [\<lparr>Search = ''_'', Replace = '' ''\<rparr>,
                                      \<lparr>Search = ''a**'', Replace = ''x''\<rparr>,
                                      \<lparr>Search = pat ''%s+'', Replace = '' ''\<rparr>]\<rparr>"
        and name = "''My_Show__[5]''"
        and bad = "\<lparr>Search = ''a**'', Replace = ''x''\<rparr>"
        and rule = "\<lparr>Search = ''a**'', Replace = ''x''\<rparr>"
        and before = "[\<lparr>Search = ''_'', Replace = '' ''\<rparr>]"
        and after = "[\<lparr>Search = pat ''%s+'', Replace = '' ''\<rparr>]"]
    by simp
qed

section \<open>Extraction\<close>

lemma patternLoop_total:
  "\<forall>p\<in>set ps. 0 \<le> TitleGroup p \<Longrightarrow> \<exists>a. patternLoop rx ps cn anime = Returned a"
  by (induction ps) (auto simp: Let_def split: option.split)

lemma deriveAnime_total:
  "\<forall>p\<in>set (AnimePatterns (Parsing cfg)). 0 \<le> TitleGroup p \<Longrightarrow>
   \<exists>a. deriveAnime rx cfg filename filepath = Returned a"
proof -
  assume "\<forall>p\<in>set (AnimePatterns (Parsing cfg)). 0 \<le> TitleGroup p"
  then obtain a where
    "patternLoop rx (AnimePatterns (Parsing cfg)) (cleanNameOf rx cfg filename)
       \<lparr>OriginalFilename = filename, FilePath = filepath, Title = [], Season = 1,
        Episode = 0, Quality = [], Group = [], Year = 0\<rparr> = Returned a"
    using patternLoop_total by blast
  then show ?thesis
    by (simp add: deriveAnime_def Let_def)
qed

lemma parseAnimeFilename_total:
  "\<forall>p\<in>set (AnimePatterns (Parsing cfg)). 0 \<le> TitleGroup p \<Longrightarrow>
   parseAnimeFilename rx cfg filename filepath \<noteq> Panicked"
  using deriveAnime_total [of cfg rx filename filepath]
  by (auto simp: parseAnimeFilename_def split: if_splits)

lemma default_groups: "\<forall>p\<in>set (AnimePatterns (Parsing defaultConfig)). 0 \<le> TitleGroup p"
  by (simp add: defaultConfig_def ordinalSeasonPattern_def seasonWordPattern_def
      bracketPattern_def seasonEpisodePattern_def)

lemma randomfile_parse:
  "parseAnimeFilename go_regexp defaultConfig ''randomfile.mkv'' ''/downloads/randomfile.mkv'' =
   Failed CouldNotParse"
  by code_simp

text \<open>
  C1.  With title group indices that are not negative (a negative one makes the index
  expression of the pattern loop panic), extraction builds a record for every filename
  and path, and it returns the error exactly when that record's title is empty or its
  episode is 0; otherwise it returns the record.  No other error is returned.
\<close>

theorem extraction_error_condition:
  assumes "\<forall>p\<in>set (AnimePatterns (Parsing cfg)). 0 \<le> TitleGroup p"
  shows "\<exists>anime. deriveAnime rx cfg filename filepath = Returned anime \<and>
           (parseAnimeFilename rx cfg filename filepath = Failed CouldNotParse \<longleftrightarrow>
              Title anime = [] \<or> Episode anime = 0) \<and>
           (parseAnimeFilename rx cfg filename filepath = Returned anime \<longleftrightarrow>
              \<not> (Title anime = [] \<or> Episode anime = 0)) \<and>
           (\<forall>e. parseAnimeFilename rx cfg filename filepath = Failed e \<longrightarrow> e = CouldNotParse) \<and>
           parseAnimeFilename rx cfg filename filepath \<noteq> Panicked"
proof -
  obtain a where a: "deriveAnime rx cfg filename filepath = Returned a"
    using deriveAnime_total [OF assms] by blast
  show ?thesis
    by (rule exI [of _ a]) (simp add: parseAnimeFilename_def a)
qed

theorem extraction_error_condition_witness:
  "list_all (\<lambda>p. 0 \<le> TitleGroup p) (AnimePatterns (Parsing defaultConfig)) \<and>
   parseAnimeFilename go_regexp defaultConfig ''randomfile.mkv'' ''/downloads/randomfile.mkv'' =
     Failed CouldNotParse \<and>
   (\<exists>anime. deriveAnime go_regexp defaultConfig ''randomfile.mkv'' ''/downloads/randomfile.mkv'' =
              Returned anime \<and>
            (Title anime = [] \<or> Episode anime = 0))"
  using extraction_error_condition
          [OF default_groups, of go_regexp "''randomfile.mkv''" "''/downloads/randomfile.mkv''"]
        default_groups randomfile_parse
  by (auto simp: list_all_iff)

lemma show_title_parse:
  "parseAnimeFilename go_regexp defaultConfig ''Show Title - 2nd Season [07] [Group].mkv''
     ''/downloads/Show Title - 2nd Season [07] [Group].mkv'' =
   Returned \<lparr>OriginalFilename = ''Show Title - 2nd Season [07] [Group].mkv'',
             FilePath = ''/downloads/Show Title - 2nd Season [07] [Group].mkv'',
             Title = ''Show Title -'', Season = 2, Episode = 7, Quality = ''Unknown'',
             Group = ''Unknown'', Year = 0\<rparr>"
  by code_simp

text \<open>
  C2, as stated, fails: for the filename of the scenario the default configuration does
  not give the title \<open>Show Title\<close>, and it does not give the group \<open>Group\<close>.
\<close>

theorem show_title_scenario_counterexample:
  "map_outcome Title
     (parseAnimeFilename go_regexp defaultConfig ''Show Title - 2nd Season [07] [Group].mkv''
        ''/downloads/Show Title - 2nd Season [07] [Group].mkv'') \<noteq> Returned ''Show Title'' \<and>
   map_outcome Group
     (parseAnimeFilename go_regexp defaultConfig ''Show Title - 2nd Season [07] [Group].mkv''
        ''/downloads/Show Title - 2nd Season [07] [Group].mkv'') \<noteq> Returned ''Group''"
  by (simp add: show_title_parse)

text \<open>
  C2, amended.  For the filename of the scenario and the default configuration,
  extraction returns a record with title \<open>Show Title -\<close> (the lazy title group ends
  at the white space before the season number, so it keeps the dash), season 2 and
  episode 7.
\<close>

theorem show_title_scenario:
  "map_outcome Title
     (parseAnimeFilename go_regexp defaultConfig ''Show Title - 2nd Season [07] [Group].mkv''
        ''/downloads/Show Title - 2nd Season [07] [Group].mkv'') = Returned ''Show Title -'' \<and>
   map_outcome Season
     (parseAnimeFilename go_regexp defaultConfig ''Show Title - 2nd Season [07] [Group].mkv''
        ''/downloads/Show Title - 2nd Season [07] [Group].mkv'') = Returned 2 \<and>
   map_outcome Episode
     (parseAnimeFilename go_regexp defaultConfig ''Show Title - 2nd Season [07] [Group].mkv''
        ''/downloads/Show Title - 2nd Season [07] [Group].mkv'') = Returned 7"
  by (simp add: show_title_parse)

lemma patternLoop_skip:
  "\<forall>q\<in>set before. \<not> fires rx q name \<Longrightarrow>
   patternLoop rx (before @ others) name anime = patternLoop rx others name anime"
  by (induction before) (auto simp: fires_def Let_def split: option.splits)

lemma patternLoop_fires:
  assumes "fires rx p name" and "0 \<le> TitleGroup p"
  shows "patternLoop rx (p # after) name anime =
         Returned (setEpisode p (patternMatches rx p name)
                    (setSeason p (patternMatches rx p name)
                      (anime\<lparr>Title := capturedTitle p (patternMatches rx p name)\<rparr>)))"
  using assms
  by (auto simp: fires_def patternMatches_def capturedTitle_def Let_def split: option.splits)

lemma setSeason_fields:
  "Title (setSeason p ms a) = Title a"
  "Episode (setSeason p ms a) = Episode a"
  "Season (setSeason p ms a) =
     (if 0 < SeasonGroup p \<and> SeasonGroup p < int (length ms) then
        (case Atoi (ms ! nat (SeasonGroup p)) of Some n \<Rightarrow> n | None \<Rightarrow> Season a)
      else Season a)"
  by (simp_all add: setSeason_def split: option.split)

lemma setEpisode_fields:
  "Title (setEpisode p ms a) = Title a"
  "Season (setEpisode p ms a) = Season a"
  "Episode (setEpisode p ms a) =
     (if 0 < EpisodeGroup p \<and> EpisodeGroup p < int (length ms) then
        (case Atoi (ms ! nat (EpisodeGroup p)) of Some n \<Rightarrow> n | None \<Rightarrow> Episode a)
      else Episode a)"
  by (simp_all add: setEpisode_def split: option.split)

lemma number_first_clean:
  "cleanNameOf go_regexp numberFirstConfig ''[05] Show Name.mkv'' = ''[05] Show Name''"
  by code_simp

lemma number_first_matches:
  "patternMatches go_regexp optionalTitlePattern ''[05] Show Name'' = [''[05]'', [], ''05'']"
  "patternMatches go_regexp numberFirstPattern ''[05] Show Name'' =
     [''[05] Show Name'', ''05'', ''Show Name'']"
  by code_simp+

lemma number_first_parse:
  "parseAnimeFilename go_regexp numberFirstConfig ''[05] Show Name.mkv''
     ''/downloads/[05] Show Name.mkv'' = Failed CouldNotParse"
  by code_simp

text \<open>
  C3, as stated, fails.  In \<open>numberFirstConfig\<close> the first pattern matches the name
  \<open>[05] Show Name\<close> with an empty title group and the second matches it with the
  title \<open>Show Name\<close> and the episode 05, so the second is the first pattern whose match
  has a non-empty title group; yet extraction does not return a record with these
  values: it fails.
\<close>

theorem first_nonempty_title_counterexample:
  "cleanNameOf go_regexp numberFirstConfig ''[05] Show Name.mkv'' = ''[05] Show Name'' \<and>
   AnimePatterns (Parsing numberFirstConfig) = [optionalTitlePattern, numberFirstPattern] \<and>
   patternMatches go_regexp optionalTitlePattern ''[05] Show Name'' = [''[05]'', [], ''05''] \<and>
   patternMatches go_regexp numberFirstPattern ''[05] Show Name'' =
     [''[05] Show Name'', ''05'', ''Show Name''] \<and>
   parseAnimeFilename go_regexp numberFirstConfig ''[05] Show Name.mkv''
     ''/downloads/[05] Show Name.mkv'' = Failed CouldNotParse"
  by (simp add: number_first_clean number_first_matches number_first_parse)
     (simp add: numberFirstConfig_def)

text \<open>
  C3, amended.  Extraction stops at the first pattern, in configured order, that fires
  (it compiles and its match has more entries than its title group index), whether or
  not the captured title is empty.  The record's season is that pattern's captured
  season (1 when the season group index is 0 or out of range, or the capture is not an
  integer).  When the trimmed title capture is not empty, the record's title is that
  trimmed capture and its episode the captured episode (0 when there is none); when it
  is empty, no later pattern is tried and title and episode come from the fallback
  heuristics.  The record is returned unless its title is empty or its episode is 0.
\<close>

theorem first_firing_pattern:
  assumes split: "AnimePatterns (Parsing cfg) = before @ p # after"
    and before: "\<forall>q\<in>set before. \<not> fires rx q (cleanNameOf rx cfg filename)"
    and fires: "fires rx p (cleanNameOf rx cfg filename)"
    and tg: "0 \<le> TitleGroup p"
  shows "\<exists>anime. deriveAnime rx cfg filename filepath = Returned anime \<and>
           Season anime = capturedSeason p (patternMatches rx p (cleanNameOf rx cfg filename)) \<and>
           (capturedTitle p (patternMatches rx p (cleanNameOf rx cfg filename)) \<noteq> [] \<longrightarrow>
              Title anime = capturedTitle p (patternMatches rx p (cleanNameOf rx cfg filename)) \<and>
              Episode anime = capturedEpisode p (patternMatches rx p (cleanNameOf rx cfg filename))) \<and>
           (capturedTitle p (patternMatches rx p (cleanNameOf rx cfg filename)) = [] \<longrightarrow>
              Title anime = extractTitle rx (cleanNameOf rx cfg filename) \<and>
              Episode anime = extractEpisode rx cfg (cleanNameOf rx cfg filename)) \<and>
           parseAnimeFilename rx cfg filename filepath =
             (if Title anime = [] \<or> Episode anime = 0 then Failed CouldNotParse else Returned anime)"
proof -
  define cn where "cn = cleanNameOf rx cfg filename"
  define ms where "ms = patternMatches rx p cn"
  define a0 where "a0 = \<lparr>OriginalFilename = filename, FilePath = filepath, Title = [], Season = 1,
                   Episode = 0, Quality = [], Group = [], Year = 0\<rparr>"
  define a1 where "a1 = setEpisode p ms (setSeason p ms (a0\<lparr>Title := capturedTitle p ms\<rparr>))"
  have loop: "patternLoop rx (AnimePatterns (Parsing cfg)) cn a0 = Returned a1"
    using patternLoop_skip [of before rx cn "p # after" a0] patternLoop_fires [of rx p cn after a0]
      before fires tg
    by (simp add: split cn_def ms_def a1_def)
  have f1: "Title a1 = capturedTitle p ms" "Season a1 = capturedSeason p ms"
    "Episode a1 = capturedEpisode p ms"
    by (simp_all add: a1_def a0_def setSeason_fields setEpisode_fields capturedSeason_def
        capturedEpisode_def split: option.split)
  define a2 where "a2 = (if Title a1 = []
                            then a1\<lparr>Title := extractTitle rx cn,
                                        Episode := extractEpisode rx cfg cn\<rparr>
                            else a1)"
  define a3 where "a3 = a2\<lparr>Quality := extractQuality cfg filename,
                                   Group := extractGroup rx cfg filename\<rparr>"
  have d: "deriveAnime rx cfg filename filepath = Returned a3"
    using loop by (simp add: deriveAnime_def Let_def cn_def [symmetric] a0_def [symmetric] a2_def a3_def)
  have f3: "Season a3 = capturedSeason p ms"
    "capturedTitle p ms \<noteq> [] \<longrightarrow> Title a3 = capturedTitle p ms \<and> Episode a3 = capturedEpisode p ms"
    "capturedTitle p ms = [] \<longrightarrow> Title a3 = extractTitle rx cn \<and> Episode a3 = extractEpisode rx cfg cn"
    using f1 by (simp_all add: a3_def a2_def)
  have "parseAnimeFilename rx cfg filename filepath =
             (if Title a3 = [] \<or> Episode a3 = 0 then Failed CouldNotParse else Returned a3)"
    by (simp add: parseAnimeFilename_def d)
  with d f3 show ?thesis
    unfolding cn_def [symmetric] ms_def [symmetric] by blast
qed

lemma show_name_default:
  "cleanNameOf go_regexp defaultConfig ''Show Name [12].mkv'' = ''Show Name [12]''"
  "\<not> fires go_regexp ordinalSeasonPattern ''Show Name [12]''"
  "\<not> fires go_regexp seasonWordPattern ''Show Name [12]''"
  "fires go_regexp bracketPattern ''Show Name [12]''"
  "patternMatches go_regexp bracketPattern ''Show Name [12]'' =
     [''Show Name [12]'', ''Show Name'', ''12'']"
  by code_simp+

lemma show_name_captures:
  "capturedTitle bracketPattern [''Show Name [12]'', ''Show Name'', ''12''] = ''Show Name''"
  "capturedSeason bracketPattern [''Show Name [12]'', ''Show Name'', ''12''] = 1"
  "capturedEpisode bracketPattern [''Show Name [12]'', ''Show Name'', ''12''] = 12"
  by code_simp+

theorem first_firing_pattern_witness:
  "AnimePatterns (Parsing defaultConfig) =
     [ordinalSeasonPattern, seasonWordPattern] @ bracketPattern # [seasonEpisodePattern] \<and>
   \<not> fires go_regexp ordinalSeasonPattern
       (cleanNameOf go_regexp defaultConfig ''Show Name [12].mkv'') \<and>
   \<not> fires go_regexp seasonWordPattern
       (cleanNameOf go_regexp defaultConfig ''Show Name [12].mkv'') \<and>
   fires go_regexp bracketPattern (cleanNameOf go_regexp defaultConfig ''Show Name [12].mkv'') \<and>
   0 \<le> TitleGroup bracketPattern \<and>
   (\<exists>anime. parseAnimeFilename go_regexp defaultConfig ''Show Name [12].mkv''
              ''/downloads/Show Name [12].mkv'' = Returned anime \<and>
            Title anime = ''Show Name'' \<and> Season anime = 1 \<and> Episode anime = 12)"
proof -
  have h1: "AnimePatterns (Parsing defaultConfig) =
     [ordinalSeasonPattern, seasonWordPattern] @ bracketPattern # [seasonEpisodePattern]"
    by (simp add: defaultConfig_def)
  have h2: "\<forall>q\<in>set [ordinalSeasonPattern, seasonWordPattern].
      \<not> fires go_regexp q (cleanNameOf go_regexp defaultConfig ''Show Name [12].mkv'')"
    by (simp add: show_name_default)
  have h3: "fires go_regexp bracketPattern
              (cleanNameOf go_regexp defaultConfig ''Show Name [12].mkv'')"
    by (simp add: show_name_default)
  have h4: "0 \<le> TitleGroup bracketPattern"
    by (simp add: bracketPattern_def)
  from first_firing_pattern [OF h1 h2 h3 h4, of "''/downloads/Show Name [12].mkv''"]
  have "\<exists>anime. parseAnimeFilename go_regexp defaultConfig ''Show Name [12].mkv''
              ''/downloads/Show Name [12].mkv'' = Returned anime \<and>
            Title anime = ''Show Name'' \<and> Season anime = 1 \<and> Episode anime = 12"
    by (auto simp: show_name_default show_name_captures)
  with h1 h2 h3 h4 show ?thesis by simp
qed

lemma patternLoop_none:
  "\<forall>q\<in>set ps. \<not> fires rx q name \<Longrightarrow> patternLoop rx ps name anime = Returned anime"
  using patternLoop_skip [of ps rx name "[]" anime] by simp

lemma bare_bracket_default:
  "cleanNameOf go_regexp defaultConfig ''[12].mkv'' = ''[12]''"
  "noPatternFires go_regexp defaultConfig ''[12]''"
  "extractEpisode go_regexp defaultConfig ''[12]'' = 12"
  "parseAnimeFilename go_regexp defaultConfig ''[12].mkv'' ''/downloads/[12].mkv'' =
     Failed CouldNotParse"
  by code_simp+

text \<open>
  C4, as stated, fails.  With the default configuration no structured pattern fires on
  the name of \<open>[12].mkv\<close>, which holds the bracketed number 12 (the episode
  heuristic finds it); extraction does not yield a record with a non-empty title: it
  fails.
\<close>

theorem bracketed_number_counterexample:
  "noPatternFires go_regexp defaultConfig (cleanNameOf go_regexp defaultConfig ''[12].mkv'') \<and>
   extractEpisode go_regexp defaultConfig (cleanNameOf go_regexp defaultConfig ''[12].mkv'') = 12 \<and>
   parseAnimeFilename go_regexp defaultConfig ''[12].mkv'' ''/downloads/[12].mkv'' =
     Failed CouldNotParse"
  by (simp add: bare_bracket_default)

text \<open>
  C4, amended.  For every filename on whose normalized name no structured pattern
  fires, the record built has season 1, the title that \<open>extractTitle\<close> derives from
  the normalized name (episode indicators stripped from its tail, then trimmed) and the
  episode that \<open>extractEpisode\<close> derives from it (the first integer captured by the
  configured episode patterns, in order, else 0: the number in the first bracket when
  the bracket pattern is the first episode pattern and the number fits an int); that
  record is returned when this
  title is not empty and this episode is not 0, and extraction fails otherwise.  For
  \<open>Show Name [12].mkv\<close>, without the bracket-only structured pattern and with the
  bracket episode pattern, the record has title \<open>Show Name\<close>, season 1, episode 12.
\<close>

theorem fallback_path:
  assumes "noPatternFires rx cfg (cleanNameOf rx cfg filename)"
  shows "\<exists>anime. deriveAnime rx cfg filename filepath = Returned anime \<and>
           Season anime = 1 \<and>
           Title anime = extractTitle rx (cleanNameOf rx cfg filename) \<and>
           Episode anime = extractEpisode rx cfg (cleanNameOf rx cfg filename) \<and>
           (\<forall>pattern others regex n.
              EpisodePatterns (Parsing cfg) = pattern # others \<and>
              Compile rx pattern = Some regex \<and>
              2 \<le> length (FindStringSubmatch rx regex (cleanNameOf rx cfg filename)) \<and>
              Atoi (FindStringSubmatch rx regex (cleanNameOf rx cfg filename) ! 1) = Some n \<longrightarrow>
              Episode anime = n) \<and>
           parseAnimeFilename rx cfg filename filepath =
             (if extractTitle rx (cleanNameOf rx cfg filename) = [] \<or>
                 extractEpisode rx cfg (cleanNameOf rx cfg filename) = 0
              then Failed CouldNotParse else Returned anime)"
proof -
  define cn where "cn = cleanNameOf rx cfg filename"
  define a0 where "a0 = \<lparr>OriginalFilename = filename, FilePath = filepath, Title = [], Season = 1,
                   Episode = 0, Quality = [], Group = [], Year = 0\<rparr>"
  have "\<forall>q\<in>set (AnimePatterns (Parsing cfg)). \<not> fires rx q cn"
    using assms by (simp add: noPatternFires_def list_all_iff cn_def)
  then have loop: "patternLoop rx (AnimePatterns (Parsing cfg)) cn a0 = Returned a0"
    by (rule patternLoop_none)
  define a3 where "a3 = a0\<lparr>Title := extractTitle rx cn, Episode := extractEpisode rx cfg cn,
                           Quality := extractQuality cfg filename, Group := extractGroup rx cfg filename\<rparr>"
  have d: "deriveAnime rx cfg filename filepath = Returned a3"
    using loop by (simp add: deriveAnime_def Let_def cn_def [symmetric] a0_def [symmetric] a3_def)
       (simp add: a0_def)
  have "parseAnimeFilename rx cfg filename filepath =
             (if Title a3 = [] \<or> Episode a3 = 0 then Failed CouldNotParse else Returned a3)"
    by (simp add: parseAnimeFilename_def d)
  moreover have "Season a3 = 1" "Title a3 = extractTitle rx cn" "Episode a3 = extractEpisode rx cfg cn"
    by (simp_all add: a3_def a0_def)
  moreover have "\<forall>pattern others regex n.
              EpisodePatterns (Parsing cfg) = pattern # others \<and>
              Compile rx pattern = Some regex \<and>
              2 \<le> length (FindStringSubmatch rx regex cn) \<and>
              Atoi (FindStringSubmatch rx regex cn ! 1) = Some n \<longrightarrow>
              extractEpisode rx cfg cn = n"
    by (simp add: extractEpisode_def Let_def)
  ultimately show ?thesis
    using d unfolding cn_def [symmetric] by auto
qed



lemma show_name_fallback:
  "cleanNameOf go_regexp fallbackConfig ''Show Name [12].mkv'' = ''Show Name [12]''"
  "noPatternFires go_regexp fallbackConfig ''Show Name [12]''"
  "extractEpisode go_regexp fallbackConfig ''Show Name [12]'' = 12"
  "extractTitle go_regexp ''Show Name [12]'' = ''Show Name''"
  by code_simp+

theorem fallback_path_witness:
  "noPatternFires go_regexp fallbackConfig
     (cleanNameOf go_regexp fallbackConfig ''Show Name [12].mkv'') \<and>
   (\<exists>anime. parseAnimeFilename go_regexp fallbackConfig ''Show Name [12].mkv''
              ''/downloads/Show Name [12].mkv'' = Returned anime \<and>
            Title anime = ''Show Name'' \<and> Season anime = 1 \<and> Episode anime = 12)"
proof -
  have h: "noPatternFires go_regexp fallbackConfig
             (cleanNameOf go_regexp fallbackConfig ''Show Name [12].mkv'')"
    by (simp add: show_name_fallback)
  from fallback_path [OF h, of "''/downloads/Show Name [12].mkv''"]
  have "\<exists>anime. parseAnimeFilename go_regexp fallbackConfig ''Show Name [12].mkv''
              ''/downloads/Show Name [12].mkv'' = Returned anime \<and>
            Title anime = ''Show Name'' \<and> Season anime = 1 \<and> Episode anime = 12"
    by (auto simp: show_name_fallback)
  with h show ?thesis by blast
qed


section \<open>Reconciliation and batch\<close>

lemma find_Some_mem: "find P xs = Some x \<Longrightarrow> x \<in> set xs \<and> P x"
  by (induction xs) (auto split: if_splits)

lemma seriesLoop_find:
  "seriesLoop series (ToLower (TrimSpace title)) =
   map_option Series.ID (find (\<lambda>s. titleMatches s title) series)"
  by (induction series) (simp_all add: titleMatches_def)

lemma episodeScan_find:
  "episodeScan episodes sn en =
   map_option Episode.ID (find (\<lambda>e. Episode.SeasonNumber e = sn \<and> EpisodeNumber e = en) episodes)"
  by (induction episodes) simp_all

text \<open>
  C7.  When the episode list of the series is fetched and decoded, episode resolution
  returns the ID of the first entry, in list order, whose season number and episode
  number both equal the parsed values, and it fails with the episode-not-found error
  exactly when no entry has both numbers equal; it sends that one request.
\<close>

theorem episode_resolution:
  assumes "NewRequest client (Url (episodeListRequest cfg seriesID))"
    and "Do client (world st) (episodeListRequest cfg seriesID) = (Some resp, w)"
    and "decodeEpisodeArray (ResponseBody resp) = Some episodes"
  shows "fst (findEpisode client cfg seriesID sn en st) =
           (case find (\<lambda>e. Episode.SeasonNumber e = sn \<and> EpisodeNumber e = en) episodes of
              Some e \<Rightarrow> Inr (Episode.ID e)
            | None \<Rightarrow> Inl (EpisodeNotFound sn en)) \<and>
         (fst (findEpisode client cfg seriesID sn en st) = Inl (EpisodeNotFound sn en) \<longleftrightarrow>
            \<not> (\<exists>e\<in>set episodes. Episode.SeasonNumber e = sn \<and> EpisodeNumber e = en)) \<and>
         sent (snd (findEpisode client cfg seriesID sn en st)) =
           sent st @ [episodeListRequest cfg seriesID]"
proof -
  let ?P = "\<lambda>e. Episode.SeasonNumber e = sn \<and> EpisodeNumber e = en"
  have eq: "findEpisode client cfg seriesID sn en st =
        ((case find ?P episodes of
            Some e \<Rightarrow> Inr (Episode.ID e)
          | None \<Rightarrow> Inl (EpisodeNotFound sn en)),
         st\<lparr>world := w, sent := sent st @ [episodeListRequest cfg seriesID]\<rparr>)"
    using assms
    by (simp add: findEpisode_def send_def episodeScan_find split: option.split)
  show ?thesis
  proof (cases "find ?P episodes")
    case None
    then have "\<not> (\<exists>e\<in>set episodes. ?P e)"
      by (simp add: find_None_iff)
    with None show ?thesis
      by (simp add: eq)
  next
    case (Some e)
    then have "\<exists>e\<in>set episodes. ?P e"
      using find_Some_mem [of ?P episodes e] by blast
    with Some show ?thesis
      by (simp add: eq)
  qed
qed

lemma findExisting_eq:
  assumes "NewRequest client (Url (seriesListRequest cfg))"
    and "Do client (world st) (seriesListRequest cfg) = (Some r1, w1)"
    and "decodeSeriesArray (ResponseBody r1) = Some series"
  shows "findExistingSeries client cfg title st =
           ((case find (\<lambda>s. titleMatches s title) series of
               Some s \<Rightarrow> Inr (Series.ID s)
             | None \<Rightarrow> Inl SeriesNotFound),
            st\<lparr>world := w1, sent := sent st @ [seriesListRequest cfg]\<rparr>)"
  using assms
  by (simp add: findExistingSeries_def send_def seriesLoop_find split: option.split)

text \<open>
  C6, amended.  When the fetched series list holds a series whose title or sort title
  equals the parsed title up to case, and the first such series in list order has a
  positive ID, series resolution adopts that ID and sends nothing but the request for
  the list: no lookup and no creation request.
\<close>

theorem existing_series_adopted:
  assumes "NewRequest client (Url (seriesListRequest cfg))"
    and "Do client (world st) (seriesListRequest cfg) = (Some r1, w1)"
    and "decodeSeriesArray (ResponseBody r1) = Some series"
    and "find (\<lambda>s. titleMatches s (Title anime)) series = Some s"
    and "0 < Series.ID s"
  shows "fst (findOrCreateSeries client cfg anime st) = Inr (Series.ID s) \<and>
         sent (snd (findOrCreateSeries client cfg anime st)) = sent st @ [seriesListRequest cfg]"
  using assms(4,5)
  by (simp add: findOrCreateSeries_def findExisting_eq [OF assms(1-3)] logInfo_def)

lemma searchSeries_eq:
  assumes "NewRequest client (Url (lookupRequest cfg title))"
    and "Do client (world st) (lookupRequest cfg title) = (Some r2, w2)"
    and "decodeLookupArray (ResponseBody r2) = Some candidates"
  shows "searchSeries client cfg title st =
           (Inr candidates, st\<lparr>world := w2, sent := sent st @ [lookupRequest cfg title]\<rparr>)"
  using assms by (simp add: searchSeries_def send_def)

lemma addSeries_eq:
  assumes "NewRequest client (Url (createRequest cfg (newSeries cfg c)))"
  shows "fst (addSeries client cfg c anime st) =
           (case fst (Do client (world st) (createRequest cfg (newSeries cfg c))) of
              None \<Rightarrow> Inl TransportError
            | Some r3 \<Rightarrow>
                if StatusCode r3 < 200 \<or> 300 \<le> StatusCode r3
                then Inl (AddSeriesStatus (StatusCode r3))
                else (case decodeSeries (ResponseBody r3) of
                        None \<Rightarrow> Inl DecodeError
                      | Some added \<Rightarrow> Inr (Series.ID added))) \<and>
         sent (snd (addSeries client cfg c anime st)) =
           sent st @ [createRequest cfg (newSeries cfg c)]"
  using assms
  by (cases "Do client (world st) (createRequest cfg (newSeries cfg c))")
     (simp add: addSeries_def send_def Let_def logInfo_def split: option.split)


text \<open>
  C5.  When the fetched series list holds no series whose title or sort title equals
  the parsed title up to case, and the lookup by title is answered with the list
  \<open>candidates\<close>: if the list is empty, resolution fails with the error that no
  series was found, after the two read requests; otherwise exactly one further request
  is sent, the creation request (POST) for the first candidate, whose series has the
  path \<open>Join [root folder, title slug of the candidate]\<close>, the configured quality and
  language profile IDs, monitored and season folder set; the ID of the series in a 2xx
  answer is adopted, and an answer with another status code fails the resolution.
\<close>

theorem series_creation:
  assumes get_ok: "NewRequest client (Url (seriesListRequest cfg))"
    and get: "Do client (world st) (seriesListRequest cfg) = (Some r1, w1)"
    and dec1: "decodeSeriesArray (ResponseBody r1) = Some series"
    and nomatch: "\<forall>s\<in>set series. \<not> titleMatches s (Title anime)"
    and look_ok: "NewRequest client (Url (lookupRequest cfg (Title anime)))"
    and look: "Do client w1 (lookupRequest cfg (Title anime)) = (Some r2, w2)"
    and dec2: "decodeLookupArray (ResponseBody r2) = Some candidates"
  shows "(candidates = [] \<longrightarrow>
            fst (findOrCreateSeries client cfg anime st) = Inl (NoSeriesFoundFor (Title anime)) \<and>
            sent (snd (findOrCreateSeries client cfg anime st)) =
              sent st @ [seriesListRequest cfg, lookupRequest cfg (Title anime)]) \<and>
         (\<forall>c cs. candidates = c # cs \<longrightarrow>
            sent (snd (findOrCreateSeries client cfg anime st)) =
              sent st @ [seriesListRequest cfg, lookupRequest cfg (Title anime),
                         createRequest cfg (newSeries cfg c)] \<and>
            Method (createRequest cfg (newSeries cfg c)) = ''POST'' \<and>
            Series.Path (newSeries cfg c) =
              Join [RootFolder (Sonarr cfg), SeriesLookup.TitleSlug c] \<and>
            QualityProfileID (newSeries cfg c) = QualityProfile (Sonarr cfg) \<and>
            LanguageProfileID (newSeries cfg c) = LanguageProfile (Sonarr cfg) \<and>
            Series.Monitored (newSeries cfg c) \<and>
            SeasonFolder (newSeries cfg c) \<and>
            fst (findOrCreateSeries client cfg anime st) =
              (case fst (Do client w2 (createRequest cfg (newSeries cfg c))) of
                 None \<Rightarrow> Inl TransportError
               | Some r3 \<Rightarrow>
                   if StatusCode r3 < 200 \<or> 300 \<le> StatusCode r3
                   then Inl (AddSeriesStatus (StatusCode r3))
                   else (case decodeSeries (ResponseBody r3) of
                           None \<Rightarrow> Inl DecodeError
                         | Some added \<Rightarrow> Inr (Series.ID added))))"
proof -
  define st1 where "st1 = st\<lparr>world := w1, sent := sent st @ [seriesListRequest cfg]\<rparr>"
  define st2 where
    "st2 = (logInfo (SeriesNotFoundSearching (Title anime)) st1)
             \<lparr>world := w2,
              sent := sent (logInfo (SeriesNotFoundSearching (Title anime)) st1) @
                      [lookupRequest cfg (Title anime)]\<rparr>"
  have none: "find (\<lambda>s. titleMatches s (Title anime)) series = None"
    using nomatch by (simp add: find_None_iff)
  have existing: "findExistingSeries client cfg (Title anime) st = (Inl SeriesNotFound, st1)"
    by (simp add: findExisting_eq [OF get_ok get dec1] none st1_def)
  have w1: "world (logInfo (SeriesNotFoundSearching (Title anime)) st1) = w1"
    by (simp add: logInfo_def st1_def)
  have search: "searchSeries client cfg (Title anime)
                  (logInfo (SeriesNotFoundSearching (Title anime)) st1) = (Inr candidates, st2)"
    using searchSeries_eq [OF look_ok _ dec2,
        of "logInfo (SeriesNotFoundSearching (Title anime)) st1" w2] look w1
    by (simp add: st2_def)
  have sent2: "sent st2 = sent st @ [seriesListRequest cfg, lookupRequest cfg (Title anime)]"
    by (simp add: st2_def st1_def logInfo_def)
  have world2: "world st2 = w2"
    by (simp add: st2_def)
  have foc: "findOrCreateSeries client cfg anime st =
        (case candidates of
           [] \<Rightarrow> (Inl (NoSeriesFoundFor (Title anime)), st2)
         | c # cs \<Rightarrow>
             addSeries client cfg c anime
               (logInfo (FoundSeriesOption (SeriesLookup.Title c) (SeriesLookup.Year c)) st2))"
    by (simp add: findOrCreateSeries_def existing searchAndAdd_def search)
  have post_ok: "NewRequest client (Url (createRequest cfg (newSeries cfg c)))" for c
    using get_ok by (simp add: createRequest_def seriesListRequest_def)
  have empty: "candidates = [] \<longrightarrow>
            fst (findOrCreateSeries client cfg anime st) = Inl (NoSeriesFoundFor (Title anime)) \<and>
            sent (snd (findOrCreateSeries client cfg anime st)) =
              sent st @ [seriesListRequest cfg, lookupRequest cfg (Title anime)]"
    by (simp add: foc sent2)
  have fields: "Method (createRequest cfg (newSeries cfg c)) = ''POST'' \<and>
            Series.Path (newSeries cfg c) =
              Join [RootFolder (Sonarr cfg), SeriesLookup.TitleSlug c] \<and>
            QualityProfileID (newSeries cfg c) = QualityProfile (Sonarr cfg) \<and>
            LanguageProfileID (newSeries cfg c) = LanguageProfile (Sonarr cfg) \<and>
            Series.Monitored (newSeries cfg c) \<and>
            SeasonFolder (newSeries cfg c)" for c
    by (simp add: createRequest_def newSeries_def)
  have cons: "candidates = c # cs \<longrightarrow>
            sent (snd (findOrCreateSeries client cfg anime st)) =
              sent st @ [seriesListRequest cfg, lookupRequest cfg (Title anime),
                         createRequest cfg (newSeries cfg c)] \<and>
            fst (findOrCreateSeries client cfg anime st) =
              (case fst (Do client w2 (createRequest cfg (newSeries cfg c))) of
                 None \<Rightarrow> Inl TransportError
               | Some r3 \<Rightarrow>
                   if StatusCode r3 < 200 \<or> 300 \<le> StatusCode r3
                   then Inl (AddSeriesStatus (StatusCode r3))
                   else (case decodeSeries (ResponseBody r3) of
                           None \<Rightarrow> Inl DecodeError
                         | Some added \<Rightarrow> Inr (Series.ID added)))" for c cs
    using addSeries_eq [OF post_ok, of c anime
        "logInfo (FoundSeriesOption (SeriesLookup.Title c) (SeriesLookup.Year c)) st2"]
    by (simp add: foc logInfo_def sent2 world2)
  show ?thesis
    using empty fields cons by blast
qed

lemma processAnimeFile_no_panic:
  assumes "\<forall>p\<in>set (AnimePatterns (Parsing cfg)). 0 \<le> TitleGroup p"
  shows "fst (processAnimeFile client rx cfg dryRun filePath st) \<noteq> Panicked"
proof (cases "parseAnimeFilename rx cfg (Base filePath) filePath")
  case (Returned anime)
  then show ?thesis
    by (simp add: processAnimeFile_def Let_def split: prod.split sum.split option.split)
next
  case (Failed e)
  then show ?thesis
    by (simp add: processAnimeFile_def)
next
  case Panicked
  then show ?thesis
    using parseAnimeFilename_total [OF assms, of rx "Base filePath" filePath] by simp
qed

lemma processLoop_runAll:
  assumes "\<forall>p\<in>set (AnimePatterns (Parsing cfg)). 0 \<le> TitleGroup p"
  shows "processLoop client rx cfg dryRun files n st =
           (Returned (n + length (filter succeeded (fst (runAll client rx cfg dryRun files st)))),
            snd (runAll client rx cfg dryRun files st))"
proof (induction files arbitrary: n st)
  case Nil
  show ?case by simp
next
  case (Cons path paths)
  obtain r st1 where p: "processAnimeFile client rx cfg dryRun path st = (r, st1)"
    by (cases "processAnimeFile client rx cfg dryRun path st")
  have np: "r \<noteq> Panicked"
    using processAnimeFile_no_panic [OF assms, of client rx dryRun path st] p by simp
  show ?case
  proof (cases r)
    case (Returned u)
    then show ?thesis
      using p Cons.IH [of "Suc n" st1]
      by (simp add: succeeded_def split: prod.split)
  next
    case (Failed e)
    then show ?thesis
      using p Cons.IH [of n "logError (FailedToProcess (Base path) e) st1"]
      by (simp add: succeeded_def split: prod.split)
  next
    case Panicked
    with np show ?thesis by simp
  qed
qed

lemma runAll_length: "length (fst (runAll client rx cfg dryRun files st)) = length files"
proof (induction files arbitrary: st)
  case Nil
  show ?case by simp
next
  case (Cons path paths)
  obtain r st1 where p: "processAnimeFile client rx cfg dryRun path st = (r, st1)"
    by (cases "processAnimeFile client rx cfg dryRun path st")
  define st2 where
    "st2 = (case r of Failed err \<Rightarrow> logError (FailedToProcess (Base path) err) st1 | _ \<Rightarrow> st1)"
  obtain rs st3 where q: "runAll client rx cfg dryRun paths st2 = (rs, st3)"
    by (cases "runAll client rx cfg dryRun paths st2")
  have "length rs = length paths"
    using Cons.IH [of st2] q by simp
  then show ?case
    using p q by (simp add: st2_def)
qed

lemma filter_partition_length:
  "length (filter P xs) + length (filter (\<lambda>x. \<not> P x) xs) = length xs"
  by (induction xs) simp_all

lemma runAll_no_panic:
  assumes "\<forall>p\<in>set (AnimePatterns (Parsing cfg)). 0 \<le> TitleGroup p"
  shows "Panicked \<notin> set (fst (runAll client rx cfg dryRun files st))"
proof (induction files arbitrary: st)
  case Nil
  show ?case by simp
next
  case (Cons path paths)
  obtain r st1 where p: "processAnimeFile client rx cfg dryRun path st = (r, st1)"
    by (cases "processAnimeFile client rx cfg dryRun path st")
  have np: "r \<noteq> Panicked"
    using processAnimeFile_no_panic [OF assms, of client rx dryRun path st] p by simp
  define st2 where
    "st2 = (case r of Failed err \<Rightarrow> logError (FailedToProcess (Base path) err) st1 | _ \<Rightarrow> st1)"
  obtain rs st3 where q: "runAll client rx cfg dryRun paths st2 = (rs, st3)"
    by (cases "runAll client rx cfg dryRun paths st2")
  have "Panicked \<notin> set rs"
    using Cons.IH [of st2] q by simp
  then show ?case
    using p q np by (auto simp: st2_def)
qed

text \<open>
  C8.  With title group indices that are not negative, a valid configuration, an
  existing downloads folder and a walk that finds the files \<open>files\<close> (at least one):
  the batch runs every file in order whatever the outcomes of the files before it (one
  outcome per file, none of them a panic), an error of a file being logged at the loop
  and the loop going on; the batch itself returns without error, and its last log line
  reports the number of files that succeeded out of the number of files.  If exactly one
  file fails, the reported number of successes is the number of files minus one.
\<close>

theorem batch_isolation:
  assumes groups: "\<forall>p\<in>set (AnimePatterns (Parsing cfg)). 0 \<le> TitleGroup p"
    and url: "SonarrConfig.URL (Sonarr cfg) \<noteq> []" and key: "APIKey (Sonarr cfg) \<noteq> []"
    and folder: "\<not> NotExist fs (DownloadsFolder (Sonarr cfg))"
    and walk: "findVideoFiles fs (DownloadsFolder (Sonarr cfg)) = (files, False)"
    and some: "files \<noteq> []"
  shows "length (fst (runAll client rx cfg dryRun files (batchStart cfg files st))) = length files \<and>
         Panicked \<notin> set (fst (runAll client rx cfg dryRun files (batchStart cfg files st))) \<and>
         processAnimeFiles fs client rx cfg dryRun st =
           (Returned (),
            logInfo (ProcessingComplete
                       (length (filter succeeded
                          (fst (runAll client rx cfg dryRun files (batchStart cfg files st)))))
                       (length files))
              (snd (runAll client rx cfg dryRun files (batchStart cfg files st)))) \<and>
         (length (filter (\<lambda>r. \<not> succeeded r)
                    (fst (runAll client rx cfg dryRun files (batchStart cfg files st)))) = 1 \<longrightarrow>
            length (filter succeeded
                      (fst (runAll client rx cfg dryRun files (batchStart cfg files st)))) =
              length files - 1)"
proof -
  define results where
    "results = fst (runAll client rx cfg dryRun files (batchStart cfg files st))"
  have len: "length results = length files"
    by (simp add: results_def runAll_length)
  have np: "Panicked \<notin> set results"
    unfolding results_def by (rule runAll_no_panic [OF groups])
  have part: "length (filter succeeded results) + length (filter (\<lambda>r. \<not> succeeded r) results) =
           length files"
    using filter_partition_length [of succeeded results] len by simp
  have run: "processAnimeFiles fs client rx cfg dryRun st =
           (Returned (),
            logInfo (ProcessingComplete (length (filter succeeded results)) (length files))
              (snd (runAll client rx cfg dryRun files (batchStart cfg files st))))"
    using url key folder some
    by (simp add: processAnimeFiles_def walk Let_def batchStart_def [symmetric]
        processLoop_runAll [OF groups] results_def)
  have one: "length (filter (\<lambda>r. \<not> succeeded r) results) = 1 \<longrightarrow>
            length (filter succeeded results) = length files - 1"
    using part by linarith
  show ?thesis
    using len np run one unfolding results_def by blast
qed

text \<open>
  C10.  In dry-run mode, per-file processing of a file whose extraction succeeds returns
  success after the two log lines (the parsed values and the dry-run notice); it sends
  no request at all, and the catalog is left as it was.
\<close>

theorem dry_run_no_requests:
  assumes "parseAnimeFilename rx cfg (Base filePath) filePath = Returned anime"
  shows "fst (processAnimeFile client rx cfg True filePath st) = Returned () \<and>
         sent (snd (processAnimeFile client rx cfg True filePath st)) = sent st \<and>
         world (snd (processAnimeFile client rx cfg True filePath st)) = world st \<and>
         logs (snd (processAnimeFile client rx cfg True filePath st)) =
           logs st @ [INFO (Parsed (Title anime) (Season anime) (Episode anime)),
                      INFO (DryRunWouldProcess (Title anime))]"
  using assms by (simp add: processAnimeFile_def Let_def logInfo_def)



section \<open>The workflow on the example catalog\<close>

lemma example_series_list:
  "NewRequest exampleCatalog (Url (seriesListRequest exampleConfig))"
  "Do exampleCatalog () (seriesListRequest exampleConfig) =
     (Some \<lparr>StatusCode = 200,
            ResponseBody = SeriesArray [seriesNamed 3 ''Other Show'', seriesNamed 5 ''SHOW name'']\<rparr>,
      ())"
  by code_simp+

lemma example_lookup:
  "NewRequest exampleCatalog (Url (lookupRequest exampleConfig ''Show Title -''))"
  "Do exampleCatalog () (lookupRequest exampleConfig ''Show Title -'') =
     (Some \<lparr>StatusCode = 200,
            ResponseBody = LookupArray [candidateNamed ''Show Title'' ''show-title'',
                                        candidateNamed ''Show Title Z'' ''show-title-z'']\<rparr>,
      ())"
  by code_simp+

lemma example_create:
  "fst (Do exampleCatalog ()
          (createRequest exampleConfig
             (newSeries exampleConfig (candidateNamed ''Show Title'' ''show-title'')))) =
   Some \<lparr>StatusCode = 201, ResponseBody = SeriesObject (seriesNamed 7 ''Show Title'')\<rparr>"
  "Series.Path (newSeries exampleConfig (candidateNamed ''Show Title'' ''show-title'')) =
   ''/tv/show-title''"
  by code_simp+

lemma example_no_match:
  "\<not> titleMatches (seriesNamed 3 ''Other Show'') ''Show Title -''"
  "\<not> titleMatches (seriesNamed 5 ''SHOW name'') ''Show Title -''"
  by code_simp+

theorem series_creation_witness:
  "Do exampleCatalog () (seriesListRequest exampleConfig) =
     (Some \<lparr>StatusCode = 200,
            ResponseBody = SeriesArray [seriesNamed 3 ''Other Show'', seriesNamed 5 ''SHOW name'']\<rparr>,
      ()) \<and>
   \<not> titleMatches (seriesNamed 3 ''Other Show'') ''Show Title -'' \<and>
   \<not> titleMatches (seriesNamed 5 ''SHOW name'') ''Show Title -'' \<and>
   Do exampleCatalog () (lookupRequest exampleConfig ''Show Title -'') =
     (Some \<lparr>StatusCode = 200,
            ResponseBody = LookupArray [candidateNamed ''Show Title'' ''show-title'',
                                        candidateNamed ''Show Title Z'' ''show-title-z'']\<rparr>,
      ()) \<and>
   fst (findOrCreateSeries exampleCatalog exampleConfig (animeOf ''Show Title -'' 2 7) startState) =
     Inr 7 \<and>
   sent (snd (findOrCreateSeries exampleCatalog exampleConfig (animeOf ''Show Title -'' 2 7)
                startState)) =
     [seriesListRequest exampleConfig, lookupRequest exampleConfig ''Show Title -'',
      createRequest exampleConfig
        (newSeries exampleConfig (candidateNamed ''Show Title'' ''show-title''))] \<and>
   Series.Path (newSeries exampleConfig (candidateNamed ''Show Title'' ''show-title'')) =
     ''/tv/show-title''"
proof -
  have t: "Title (animeOf ''Show Title -'' 2 7) = ''Show Title -''"
    by (simp add: animeOf_def)
  have h3: "decodeSeriesArray
              (ResponseBody \<lparr>StatusCode = 200,
                 ResponseBody = SeriesArray [seriesNamed 3 ''Other Show'',
                                             seriesNamed 5 ''SHOW name'']\<rparr>) =
            Some [seriesNamed 3 ''Other Show'', seriesNamed 5 ''SHOW name'']"
    by (simp add: decodeSeriesArray_def SeriesArray_def)
  have h4: "\<forall>s\<in>set [seriesNamed 3 ''Other Show'', seriesNamed 5 ''SHOW name''].
              \<not> titleMatches s (Title (animeOf ''Show Title -'' 2 7))"
    by (simp add: t example_no_match)
  have h5: "NewRequest exampleCatalog
              (Url (lookupRequest exampleConfig (Title (animeOf ''Show Title -'' 2 7))))"
    by (simp add: t example_lookup)
  have h6: "Do exampleCatalog () (lookupRequest exampleConfig (Title (animeOf ''Show Title -'' 2 7))) =
     (Some \<lparr>StatusCode = 200,
            ResponseBody = LookupArray [candidateNamed ''Show Title'' ''show-title'',
                                        candidateNamed ''Show Title Z'' ''show-title-z'']\<rparr>,
      ())"
    by (simp add: t example_lookup)
  have h7: "decodeLookupArray
              (ResponseBody \<lparr>StatusCode = 200,
                 ResponseBody = LookupArray [candidateNamed ''Show Title'' ''show-title'',
                                             candidateNamed ''Show Title Z'' ''show-title-z'']\<rparr>) =
            Some [candidateNamed ''Show Title'' ''show-title'',
                  candidateNamed ''Show Title Z'' ''show-title-z'']"
    by (simp add: decodeLookupArray_def LookupArray_def)
  have s0: "sent startState = []"
    by (simp add: startState_def)
  have d: "decodeSeries (SeriesObject (seriesNamed 7 ''Show Title'')) =
             Some (seriesNamed 7 ''Show Title'')"
          "Series.ID (seriesNamed 7 ''Show Title'') = 7"
    by (simp_all add: decodeSeries_def SeriesObject_def seriesNamed_def)
  have h2: "Do exampleCatalog (world startState) (seriesListRequest exampleConfig) =
     (Some \<lparr>StatusCode = 200,
            ResponseBody = SeriesArray [seriesNamed 3 ''Other Show'', seriesNamed 5 ''SHOW name'']\<rparr>,
      ())"
    using example_series_list(2) by simp
  from series_creation [OF example_series_list(1) h2 h3 h4 h5 h6 h7]
  have "fst (findOrCreateSeries exampleCatalog exampleConfig (animeOf ''Show Title -'' 2 7)
               startState) = Inr 7 \<and>
        sent (snd (findOrCreateSeries exampleCatalog exampleConfig (animeOf ''Show Title -'' 2 7)
                startState)) =
          [seriesListRequest exampleConfig, lookupRequest exampleConfig ''Show Title -'',
           createRequest exampleConfig
             (newSeries exampleConfig (candidateNamed ''Show Title'' ''show-title''))]"
    by (simp add: t s0 example_create d)
  then show ?thesis
    by (simp add: example_series_list example_no_match example_lookup example_create)
qed

lemma zero_id_run:
  "titleMatches (seriesNamed 0 ''Show Name'') ''Show Name''"
  "fst (Do zeroIdCatalog () (seriesListRequest exampleConfig)) =
     Some \<lparr>StatusCode = 200, ResponseBody = SeriesArray [seriesNamed 0 ''Show Name'']\<rparr>"
  "fst (findOrCreateSeries zeroIdCatalog exampleConfig (animeOf ''Show Name'' 1 12) startState) =
     Inr 7"
  "map Method (sent (snd (findOrCreateSeries zeroIdCatalog exampleConfig
                            (animeOf ''Show Name'' 1 12) startState))) =
     [''GET'', ''GET'', ''POST'']"
  by code_simp+

text \<open>
  C6, as stated, fails.  The series list of \<open>zeroIdCatalog\<close> holds a series whose
  title equals the parsed title, with the ID 0; series resolution does not adopt that
  ID, and it sends a creation request.
\<close>

theorem existing_series_counterexample:
  "fst (Do zeroIdCatalog () (seriesListRequest exampleConfig)) =
     Some \<lparr>StatusCode = 200, ResponseBody = SeriesArray [seriesNamed 0 ''Show Name'']\<rparr> \<and>
   titleMatches (seriesNamed 0 ''Show Name'') (Title (animeOf ''Show Name'' 1 12)) \<and>
   fst (findOrCreateSeries zeroIdCatalog exampleConfig (animeOf ''Show Name'' 1 12) startState) \<noteq>
     Inr (Series.ID (seriesNamed 0 ''Show Name'')) \<and>
   map Method (sent (snd (findOrCreateSeries zeroIdCatalog exampleConfig
                            (animeOf ''Show Name'' 1 12) startState))) =
     [''GET'', ''GET'', ''POST'']"
proof -
  have t: "Title (animeOf ''Show Name'' 1 12) = ''Show Name''"
    by (simp add: animeOf_def)
  have i: "Series.ID (seriesNamed 0 ''Show Name'') = 0"
    by (simp add: seriesNamed_def)
  have a: "titleMatches (seriesNamed 0 ''Show Name'') (Title (animeOf ''Show Name'' 1 12))"
    by (simp only: t zero_id_run(1))
  have b: "fst (findOrCreateSeries zeroIdCatalog exampleConfig (animeOf ''Show Name'' 1 12)
                  startState) \<noteq> Inr (Series.ID (seriesNamed 0 ''Show Name''))"
    by (simp add: zero_id_run(3) i)
  show ?thesis
    using a b zero_id_run(2) zero_id_run(4) by blast
qed

lemma example_find:
  "find (\<lambda>s. titleMatches s ''Show Name'')
     [seriesNamed 3 ''Other Show'', seriesNamed 5 ''SHOW name''] =
   Some (seriesNamed 5 ''SHOW name'')"
  by code_simp

theorem existing_series_adopted_witness:
  "Do exampleCatalog () (seriesListRequest exampleConfig) =
     (Some \<lparr>StatusCode = 200,
            ResponseBody = SeriesArray [seriesNamed 3 ''Other Show'', seriesNamed 5 ''SHOW name'']\<rparr>,
      ()) \<and>
   find (\<lambda>s. titleMatches s ''Show Name'')
     [seriesNamed 3 ''Other Show'', seriesNamed 5 ''SHOW name''] =
     Some (seriesNamed 5 ''SHOW name'') \<and>
   fst (findOrCreateSeries exampleCatalog exampleConfig (animeOf ''Show Name'' 1 12) startState) =
     Inr 5 \<and>
   sent (snd (findOrCreateSeries exampleCatalog exampleConfig (animeOf ''Show Name'' 1 12)
                startState)) = [seriesListRequest exampleConfig]"
proof -
  have t: "Title (animeOf ''Show Name'' 1 12) = ''Show Name''"
    by (simp add: animeOf_def)
  have h3: "decodeSeriesArray
              (ResponseBody \<lparr>StatusCode = 200,
                 ResponseBody = SeriesArray [seriesNamed 3 ''Other Show'',
                                             seriesNamed 5 ''SHOW name'']\<rparr>) =
            Some [seriesNamed 3 ''Other Show'', seriesNamed 5 ''SHOW name'']"
    by (simp add: decodeSeriesArray_def SeriesArray_def)
  have h4: "find (\<lambda>s. titleMatches s (Title (animeOf ''Show Name'' 1 12)))
              [seriesNamed 3 ''Other Show'', seriesNamed 5 ''SHOW name''] =
            Some (seriesNamed 5 ''SHOW name'')"
    by (simp only: t example_find)
  have h5: "0 < Series.ID (seriesNamed 5 ''SHOW name'')"
    by (simp add: seriesNamed_def)
  have h2: "Do exampleCatalog (world startState) (seriesListRequest exampleConfig) =
     (Some \<lparr>StatusCode = 200,
            ResponseBody = SeriesArray [seriesNamed 3 ''Other Show'', seriesNamed 5 ''SHOW name'']\<rparr>,
      ())"
    using example_series_list(2) by simp
  from existing_series_adopted [OF example_series_list(1) h2 h3 h4 h5]
  have "fst (findOrCreateSeries exampleCatalog exampleConfig (animeOf ''Show Name'' 1 12)
               startState) = Inr 5 \<and>
        sent (snd (findOrCreateSeries exampleCatalog exampleConfig (animeOf ''Show Name'' 1 12)
                startState)) = [seriesListRequest exampleConfig]"
    by (simp add: seriesNamed_def startState_def)
  then show ?thesis
    by (simp only: example_series_list example_find simp_thms)
qed

lemma example_episode_list:
  "NewRequest exampleCatalog (Url (episodeListRequest exampleConfig 5))"
  "Do exampleCatalog () (episodeListRequest exampleConfig 5) =
     (Some \<lparr>StatusCode = 200,
            ResponseBody = EpisodeArray [episodeOf 100 1 11, episodeOf 101 1 12,
                                         episodeOf 102 1 12, episodeOf 207 2 7]\<rparr>,
      ())"
  "find (\<lambda>e. Episode.SeasonNumber e = 1 \<and> EpisodeNumber e = 12)
     [episodeOf 100 1 11, episodeOf 101 1 12, episodeOf 102 1 12, episodeOf 207 2 7] =
   Some (episodeOf 101 1 12)"
  "find (\<lambda>e. Episode.SeasonNumber e = 1 \<and> EpisodeNumber e = 13)
     [episodeOf 100 1 11, episodeOf 101 1 12, episodeOf 102 1 12, episodeOf 207 2 7] = None"
  by code_simp+

theorem episode_resolution_witness:
  "Do exampleCatalog () (episodeListRequest exampleConfig 5) =
     (Some \<lparr>StatusCode = 200,
            ResponseBody = EpisodeArray [episodeOf 100 1 11, episodeOf 101 1 12,
                                         episodeOf 102 1 12, episodeOf 207 2 7]\<rparr>,
      ()) \<and>
   fst (findEpisode exampleCatalog exampleConfig 5 1 12 startState) = Inr 101 \<and>
   fst (findEpisode exampleCatalog exampleConfig 5 1 13 startState) = Inl (EpisodeNotFound 1 13)"
proof -
  have h3: "decodeEpisodeArray
              (ResponseBody \<lparr>StatusCode = 200,
                 ResponseBody = EpisodeArray [episodeOf 100 1 11, episodeOf 101 1 12,
                                              episodeOf 102 1 12, episodeOf 207 2 7]\<rparr>) =
            Some [episodeOf 100 1 11, episodeOf 101 1 12, episodeOf 102 1 12, episodeOf 207 2 7]"
    by (simp add: decodeEpisodeArray_def EpisodeArray_def)
  have h2: "Do exampleCatalog (world startState) (episodeListRequest exampleConfig 5) =
     (Some \<lparr>StatusCode = 200,
            ResponseBody = EpisodeArray [episodeOf 100 1 11, episodeOf 101 1 12,
                                         episodeOf 102 1 12, episodeOf 207 2 7]\<rparr>,
      ())"
    using example_episode_list(2) by simp
  have i: "Episode.ID (episodeOf 101 1 12) = 101"
    by (simp add: episodeOf_def)
  have a: "fst (findEpisode exampleCatalog exampleConfig 5 1 12 startState) = Inr 101"
    using episode_resolution [OF example_episode_list(1) h2 h3, of 1 12]
    by (simp only: example_episode_list(3) option.case i)
  have b: "fst (findEpisode exampleCatalog exampleConfig 5 1 13 startState) =
             Inl (EpisodeNotFound 1 13)"
    using episode_resolution [OF example_episode_list(1) h2 h3, of 1 13]
    by (simp only: example_episode_list(4) option.case)
  show ?thesis
    using a b by (simp only: example_episode_list simp_thms)
qed

lemma example_batch:
  "findVideoFiles exampleFiles (DownloadsFolder (Sonarr exampleConfig)) =
     ([''/downloads/Show Name [12].MKV'', ''/downloads/randomfile.mkv''], False)"
  "fst (runAll exampleCatalog go_regexp exampleConfig False
          [''/downloads/Show Name [12].MKV'', ''/downloads/randomfile.mkv'']
          (batchStart exampleConfig
             [''/downloads/Show Name [12].MKV'', ''/downloads/randomfile.mkv''] startState)) =
     [Returned (), Failed (Wrap ''failed to parse anime info'' CouldNotParse)]"
  by code_simp+

lemma example_config_ok:
  "list_all (\<lambda>p. 0 \<le> TitleGroup p) (AnimePatterns (Parsing exampleConfig))"
  "SonarrConfig.URL (Sonarr exampleConfig) \<noteq> []"
  "APIKey (Sonarr exampleConfig) \<noteq> []"
  "\<not> NotExist exampleFiles (DownloadsFolder (Sonarr exampleConfig))"
  by code_simp+

theorem batch_isolation_witness:
  "list_all (\<lambda>p. 0 \<le> TitleGroup p) (AnimePatterns (Parsing exampleConfig)) \<and>
   SonarrConfig.URL (Sonarr exampleConfig) \<noteq> [] \<and>
   APIKey (Sonarr exampleConfig) \<noteq> [] \<and>
   \<not> NotExist exampleFiles (DownloadsFolder (Sonarr exampleConfig)) \<and>
   findVideoFiles exampleFiles (DownloadsFolder (Sonarr exampleConfig)) =
     ([''/downloads/Show Name [12].MKV'', ''/downloads/randomfile.mkv''], False) \<and>
   fst (runAll exampleCatalog go_regexp exampleConfig False
          [''/downloads/Show Name [12].MKV'', ''/downloads/randomfile.mkv'']
          (batchStart exampleConfig
             [''/downloads/Show Name [12].MKV'', ''/downloads/randomfile.mkv''] startState)) =
     [Returned (), Failed (Wrap ''failed to parse anime info'' CouldNotParse)] \<and>
   fst (processAnimeFiles exampleFiles exampleCatalog go_regexp exampleConfig False startState) =
     Returned () \<and>
   last (logs (snd (processAnimeFiles exampleFiles exampleCatalog go_regexp exampleConfig False
                      startState))) = INFO (ProcessingComplete 1 2)"
proof -
  have g: "\<forall>p\<in>set (AnimePatterns (Parsing exampleConfig)). 0 \<le> TitleGroup p"
    using example_config_ok(1) by (simp only: list_all_iff)
  have n: "[''/downloads/Show Name [12].MKV'', ''/downloads/randomfile.mkv''] \<noteq> []"
    by simp
  from batch_isolation [OF g example_config_ok(2) example_config_ok(3) example_config_ok(4)
      example_batch(1) n, of exampleCatalog go_regexp False startState]
  have "fst (processAnimeFiles exampleFiles exampleCatalog go_regexp exampleConfig False
               startState) = Returned () \<and>
        last (logs (snd (processAnimeFiles exampleFiles exampleCatalog go_regexp exampleConfig
                           False startState))) = INFO (ProcessingComplete 1 2)"
    by (simp add: example_batch(2) succeeded_def logInfo_def del: runAll.simps)
  then show ?thesis
    using example_config_ok example_batch by blast
qed

lemma show_name_upper_parse:
  "parseAnimeFilename go_regexp exampleConfig (Base ''/downloads/Show Name [12].MKV'')
     ''/downloads/Show Name [12].MKV'' =
   Returned \<lparr>OriginalFilename = ''Show Name [12].MKV'',
             FilePath = ''/downloads/Show Name [12].MKV'',
             Title = ''Show Name'', Season = 1, Episode = 12, Quality = ''Unknown'',
             Group = ''Unknown'', Year = 0\<rparr>"
  by code_simp

theorem dry_run_no_requests_witness:
  "parseAnimeFilename go_regexp exampleConfig (Base ''/downloads/Show Name [12].MKV'')
     ''/downloads/Show Name [12].MKV'' =
   Returned \<lparr>OriginalFilename = ''Show Name [12].MKV'',
             FilePath = ''/downloads/Show Name [12].MKV'',
             Title = ''Show Name'', Season = 1, Episode = 12, Quality = ''Unknown'',
             Group = ''Unknown'', Year = 0\<rparr> \<and>
   fst (processAnimeFile exampleCatalog go_regexp exampleConfig True
          ''/downloads/Show Name [12].MKV'' startState) = Returned () \<and>
   sent (snd (processAnimeFile exampleCatalog go_regexp exampleConfig True
                ''/downloads/Show Name [12].MKV'' startState)) = [] \<and>
   logs (snd (processAnimeFile exampleCatalog go_regexp exampleConfig True
                ''/downloads/Show Name [12].MKV'' startState)) =
     [INFO (Parsed ''Show Name'' 1 12), INFO (DryRunWouldProcess ''Show Name'')]"
  using dry_run_no_requests [OF show_name_upper_parse, of exampleCatalog startState]
    show_name_upper_parse
  by (simp add: startState_def)

end
